theory Spec2Isabelle
  imports Complex_Main
begin

section \<open>Strings and numbers of the source language\<close>

text \<open>
  The program is one TypeScript module, \<^verbatim>\<open>frontend/src/App.tsx\<close>. Its strings are
  sequences of UTF-16 code units: the regular expression of \<^verbatim>\<open>injectDbPlaceholders\<close>
  has no \<^verbatim>\<open>u\<close> flag, and \<^verbatim>\<open>trim\<close>, \<^verbatim>\<open>includes\<close> and \<^verbatim>\<open>===\<close> all work on
  code units. A string is therefore a list of code units, each a natural number.
  The column names and the sample values of the source are Japanese; they are written
  here by their code units, with the text in romanised form beside them.

  In a few places the file carries lines of an earlier revision next to the current
  ones: a second import line, a second set of properties on the widget of a line item,
  and the tail of the orientation handler. The functions modelled here are complete as
  they are written; where such lines touch a modelled handler, this is said there.

  Numbers are IEEE doubles in the source. The operations modelled here copy a number,
  compare two numbers or take \<^verbatim>\<open>Math.max\<close> of a number and 1, all of which are exact on
  finite doubles, so numbers are modelled as reals. (\<^verbatim>\<open>NaN\<close> does not arise: the
  numbers come from \<^verbatim>\<open>offsetWidth\<close>/\<^verbatim>\<open>offsetHeight\<close> and from \<^verbatim>\<open>Number\<close> of a
  numeric input's value, which is the empty string, hence 0, when the field does not
  hold a number.)
\<close>

type_synonym jsstring = "nat list"

definition ascii :: "string \<Rightarrow> jsstring" where
  "ascii s = map of_char s"

definition LBRACE :: nat where
  "LBRACE = 123"

definition RBRACE :: nat where
  "RBRACE = 125"

text \<open>
  \<^verbatim>\<open>String.prototype.trim\<close> removes leading and trailing WhiteSpace and LineTerminator
  code units (ECMAScript, sections 12.2 and 12.3): TAB, LF, VT, FF, CR, SP, NBSP,
  U+1680, U+2000 to U+200A, U+2028, U+2029, U+202F, U+205F, U+3000 and U+FEFF.
\<close>

definition isWhiteSpace :: "nat \<Rightarrow> bool" where
  "isWhiteSpace c =
     (c = 9 \<or> c = 10 \<or> c = 11 \<or> c = 12 \<or> c = 13 \<or> c = 32 \<or> c = 160 \<or> c = 5760
      \<or> (8192 \<le> c \<and> c \<le> 8202) \<or> c = 8232 \<or> c = 8233 \<or> c = 8239 \<or> c = 8287
      \<or> c = 12288 \<or> c = 65279)"

definition trim :: "jsstring \<Rightarrow> jsstring" where
  "trim s = rev (dropWhile isWhiteSpace (rev (dropWhile isWhiteSpace s)))"

text \<open>
  \<^verbatim>\<open>String(n)\<close> of an integral number is its decimal numeral; the only number of the
  sample record is the integer 32, so the values of a record are strings and integers.
\<close>

fun digitsOf :: "nat \<Rightarrow> jsstring" where
  "digitsOf n = (if n < 10 then [48 + n] else digitsOf (n div 10) @ [48 + n mod 10])"

declare digitsOf.simps [simp del]

datatype DbValue = Str jsstring | Num int

fun String :: "DbValue \<Rightarrow> jsstring" where
  "String (Str s) = s"
| "String (Num n) = (if n < 0 then 45 # digitsOf (nat (- n)) else digitsOf (nat n))"

text \<open>\<^verbatim>\<open>a.includes(b)\<close>: \<open>b\<close> occurs in \<open>a\<close> as a contiguous run of code units.\<close>

fun startsWith :: "jsstring \<Rightarrow> jsstring \<Rightarrow> bool" where
  "startsWith s [] = True"
| "startsWith [] (c # t) = False"
| "startsWith (d # s) (c # t) = (d = c \<and> startsWith s t)"

fun strIncludes :: "jsstring \<Rightarrow> jsstring \<Rightarrow> bool" where
  "strIncludes [] t = (t = [])"
| "strIncludes (d # s) t = (startsWith (d # s) t \<or> strIncludes s t)"

section \<open>The sample record\<close>

text \<open>
  \<^verbatim>\<open>type DbRecord = { namae: string; nenrei: number; seibetsu: string; juusho: string }\<close>
  (lines 8 to 13; the keys are U+540D U+524D "name", U+5E74 U+9F62 "age",
  U+6027 U+5225 "sex" and U+4F4F U+6240 "address"). A value of type
  \<^verbatim>\<open>keyof DbRecord\<close> is one of the four keys; \<^verbatim>\<open>keyof DbRecord | ''\<close> is modelled as
  \<open>DbColumn option\<close>, with \<open>None\<close> for the empty string.
\<close>

datatype DbColumn = Namae | Nenrei | Seibetsu | Juusho

fun columnName :: "DbColumn \<Rightarrow> jsstring" where
  "columnName Namae = [0x540D, 0x524D]"
| "columnName Nenrei = [0x5E74, 0x9F62]"
| "columnName Seibetsu = [0x6027, 0x5225]"
| "columnName Juusho = [0x4F4F, 0x6240]"

text \<open>
  \<^verbatim>\<open>DB_SAMPLE\<close> (lines 82 to 87): "Yamada Tarou" (with an ASCII space), 32, "dansei"
  (male) and the address "Toukyouto Chiyodaku Marunouchi 1-1-1".
\<close>

fun DB_SAMPLE :: "DbColumn \<Rightarrow> DbValue" where
  "DB_SAMPLE Namae = Str [0x5C71, 0x7530, 0x20, 0x592A, 0x90CE]"
| "DB_SAMPLE Nenrei = Num 32"
| "DB_SAMPLE Seibetsu = Str [0x7537, 0x6027]"
| "DB_SAMPLE Juusho =
     Str [0x6771, 0x4EAC, 0x90FD, 0x5343, 0x4EE3, 0x7530, 0x533A, 0x4E38, 0x306E, 0x5185,
          0x31, 0x2D, 0x31, 0x2D, 0x31]"

text \<open>\<^verbatim>\<open>const dbColumns = Object.keys(DB_SAMPLE)\<close>: the keys in insertion order.\<close>

definition dbColumns :: "DbColumn list" where
  "dbColumns = [Namae, Nenrei, Seibetsu, Juusho]"

text \<open>\<^verbatim>\<open>isDbColumn(value) = (dbColumns as string[]).includes(value)\<close> (lines 99, 100).\<close>

definition isDbColumn :: "jsstring \<Rightarrow> bool" where
  "isDbColumn v = (v \<in> set (map columnName dbColumns))"

text \<open>
  \<^verbatim>\<open>DB_SAMPLE[key]\<close> for a string \<open>key\<close> that passed \<open>isDbColumn\<close>: the value under the
  key of that name, \<open>None\<close> standing for \<^verbatim>\<open>undefined\<close>.
\<close>

definition sampleAt :: "jsstring \<Rightarrow> DbValue option" where
  "sampleAt key = map_option DB_SAMPLE (find (\<lambda>c. columnName c = key) dbColumns)"

section \<open>Placeholder substitution\<close>

text \<open>
  \<^verbatim>\<open>text.replace(/\{([^{}]+)\}/g, f)\<close> scans the text from left to right. At an opening
  brace the class \<^verbatim>\<open>[^{}]+\<close> takes the longest run of code units that are not braces;
  the match succeeds when that run is not empty and a closing brace follows it
  (backtracking to a shorter run cannot help, since every unit of the run is not a
  brace). A match is replaced by \<open>f\<close> of the run and the scan goes on behind the
  closing brace; otherwise the unit is copied and the scan goes on at the next unit.
\<close>

definition notBrace :: "nat \<Rightarrow> bool" where
  "notBrace c = (c \<noteq> LBRACE \<and> c \<noteq> RBRACE)"

function replaceTokens :: "(jsstring \<Rightarrow> jsstring) \<Rightarrow> jsstring \<Rightarrow> jsstring" where
  "replaceTokens f [] = []"
| "replaceTokens f (c # cs) =
     (if c = LBRACE then
        (case dropWhile notBrace cs of
           [] \<Rightarrow> c # replaceTokens f cs
         | r # rest \<Rightarrow>
             if r = RBRACE \<and> takeWhile notBrace cs \<noteq> []
             then f (takeWhile notBrace cs) @ replaceTokens f rest
             else c # replaceTokens f cs)
      else c # replaceTokens f cs)"
  by pat_completeness auto

termination replaceTokens
proof (relation "measure (\<lambda>(f, s). length s)", goal_cases)
  case 1
  show ?case by simp
next
  case (2 f c cs)
  show ?case by simp
next
  case (3 f c cs r rest)
  have "length (dropWhile notBrace cs) \<le> length cs"
    by (rule length_dropWhile_le)
  with 3 show ?case by simp
next
  case (4 f c cs r rest)
  show ?case by simp
next
  case (5 f c cs)
  show ?case by simp
qed

text \<open>
  The replacer of \<^verbatim>\<open>injectDbPlaceholders\<close> (lines 103 to 110):
  \<^verbatim>\<open>
  (_, rawKey) => {
    const key = rawKey.trim()
    if (isDbColumn(key)) {
      const recordValue = DB_SAMPLE[key]
      return recordValue !== undefined && recordValue !== null ? String(recordValue) : ''
    }
    return `{${rawKey}}`
  }
  \<close>
\<close>

definition replacer :: "jsstring \<Rightarrow> jsstring" where
  "replacer rawKey =
     (let key = trim rawKey in
      if isDbColumn key then
        (case sampleAt key of Some recordValue \<Rightarrow> String recordValue | None \<Rightarrow> [])
      else LBRACE # rawKey @ [RBRACE])"

definition injectDbPlaceholders :: "jsstring \<Rightarrow> jsstring" where
  "injectDbPlaceholders t = replaceTokens replacer t"

section \<open>The document model\<close>

text \<open>
  The types of lines 6 to 72. \<^verbatim>\<open>TextItem\<close>, \<^verbatim>\<open>DataItem\<close>, \<^verbatim>\<open>RectangleItem\<close> and
  \<^verbatim>\<open>LineItem\<close> are \<^verbatim>\<open>BaseItem & { ... }\<close>: records that extend \<open>BaseItem\<close>. The
  \<^verbatim>\<open>type\<close> field of an item is the tag of the union \<^verbatim>\<open>CanvasItem\<close>, which is the
  constructor here. The field \<^verbatim>\<open>id\<close> is named \<open>id'\<close>, \<^verbatim>\<open>text\<close> is \<open>text'\<close> and the
  condition's \<^verbatim>\<open>value\<close> is \<open>value'\<close>. Colours are strings.
\<close>

datatype PaperSizeKey = A4 | A4Landscape | Letter

datatype ConditionOperator = equals | notEquals | contains

datatype Align = left | center | right

datatype Orientation = horizontal | vertical

record ConditionSetting =
  enabled :: bool
  column :: "DbColumn option"
  operator :: ConditionOperator
  value' :: jsstring
  trueText :: jsstring
  falseText :: jsstring

record BaseItem =
  id' :: jsstring
  x :: real
  y :: real
  width :: real
  height :: real

record TextItem = BaseItem +
  text' :: jsstring
  fontSize :: real
  bold :: bool
  align :: Align

record DataItem = BaseItem +
  column :: "DbColumn option"
  fontSize :: real
  bold :: bool
  align :: Align
  prefix :: jsstring
  suffix :: jsstring
  emptyFallback :: jsstring
  condition :: ConditionSetting

record RectangleItem = BaseItem +
  background :: jsstring
  borderColor :: jsstring
  borderWidth :: real
  borderRadius :: real

record LineItem = BaseItem +
  color :: jsstring
  thickness :: real
  orientation :: Orientation

datatype CanvasItem =
  Text TextItem
| Data DataItem
| Rectangle RectangleItem
| Line LineItem

datatype CanvasItemType = text_t | data_t | rectangle_t | line_t

text \<open>\<^verbatim>\<open>item.id\<close>, \<^verbatim>\<open>item.width\<close> and \<^verbatim>\<open>item.height\<close> of an item of any variant.\<close>

fun itemId :: "CanvasItem \<Rightarrow> jsstring" where
  "itemId (Text t) = id' t"
| "itemId (Data d) = id' d"
| "itemId (Rectangle r) = id' r"
| "itemId (Line l) = id' l"

text \<open>
  The state cells of the component \<^verbatim>\<open>App\<close> (lines 120 to 126), as one record. A
  \<^verbatim>\<open>setX(v)\<close> of a state cell is the field update; a \<^verbatim>\<open>setX(prev => ...)\<close> is the
  field update by that function.
\<close>

datatype Mode = edit | preview

record AppState =
  paperSize :: "PaperSizeKey option"
  mode :: Mode
  items :: "CanvasItem list"
  selectedId :: "jsstring option"
  zoom :: real
  pan :: "real \<times> real"
  isPanning :: bool

definition initialState :: AppState where
  "initialState =
     \<lparr>paperSize = None, mode = edit, items = [], selectedId = None, zoom = 1,
      pan = (0, 0), isPanning = False\<rparr>"

text \<open>
  \<^verbatim>\<open>const selectedItem = items.find((item) => item.id === selectedId) || null\<close>
  (line 137); \<open>None\<close> is \<^verbatim>\<open>null\<close>.
\<close>

definition selectedItem :: "AppState \<Rightarrow> CanvasItem option" where
  "selectedItem st = find (\<lambda>item. Some (itemId item) = selectedId st) (items st)"

subsection \<open>Updating an item\<close>

text \<open>
  The payload of \<^verbatim>\<open>handleItemUpdate\<close> is a \<^verbatim>\<open>Partial<CanvasItem>\<close>, written at every
  call as an object literal: a list of fields with their values, a later entry of a
  key overriding an earlier one. \<^verbatim>\<open>{ ...item, ...payload }\<close> copies the item and then
  assigns the payload's entries in order. An entry whose key is not a field of the
  item's variant would become an extra property that no code reads once the item's
  \<^verbatim>\<open>type\<close> is known; it leaves the item as it is here. No call passes \<^verbatim>\<open>id\<close> or
  \<^verbatim>\<open>type\<close>.
\<close>

datatype FieldValue =
  F_x real
| F_y real
| F_width real
| F_height real
| F_text jsstring
| F_fontSize real
| F_bold bool
| F_align Align
| F_column "DbColumn option"
| F_prefix jsstring
| F_suffix jsstring
| F_emptyFallback jsstring
| F_condition ConditionSetting
| F_background jsstring
| F_borderColor jsstring
| F_borderWidth real
| F_borderRadius real
| F_color jsstring
| F_thickness real
| F_orientation Orientation

type_synonym Payload = "FieldValue list"

fun assign :: "FieldValue \<Rightarrow> CanvasItem \<Rightarrow> CanvasItem" where
  "assign (F_x v) item =
     (case item of Text t \<Rightarrow> Text (t\<lparr>x := v\<rparr>) | Data d \<Rightarrow> Data (d\<lparr>x := v\<rparr>)
      | Rectangle r \<Rightarrow> Rectangle (r\<lparr>x := v\<rparr>) | Line l \<Rightarrow> Line (l\<lparr>x := v\<rparr>))"
| "assign (F_y v) item =
     (case item of Text t \<Rightarrow> Text (t\<lparr>y := v\<rparr>) | Data d \<Rightarrow> Data (d\<lparr>y := v\<rparr>)
      | Rectangle r \<Rightarrow> Rectangle (r\<lparr>y := v\<rparr>) | Line l \<Rightarrow> Line (l\<lparr>y := v\<rparr>))"
| "assign (F_width v) item =
     (case item of Text t \<Rightarrow> Text (t\<lparr>width := v\<rparr>) | Data d \<Rightarrow> Data (d\<lparr>width := v\<rparr>)
      | Rectangle r \<Rightarrow> Rectangle (r\<lparr>width := v\<rparr>) | Line l \<Rightarrow> Line (l\<lparr>width := v\<rparr>))"
| "assign (F_height v) item =
     (case item of Text t \<Rightarrow> Text (t\<lparr>height := v\<rparr>) | Data d \<Rightarrow> Data (d\<lparr>height := v\<rparr>)
      | Rectangle r \<Rightarrow> Rectangle (r\<lparr>height := v\<rparr>) | Line l \<Rightarrow> Line (l\<lparr>height := v\<rparr>))"
| "assign (F_text v) item =
     (case item of Text t \<Rightarrow> Text (t\<lparr>text' := v\<rparr>) | _ \<Rightarrow> item)"
| "assign (F_fontSize v) item =
     (case item of Text t \<Rightarrow> Text (t\<lparr>TextItem.fontSize := v\<rparr>)
      | Data d \<Rightarrow> Data (d\<lparr>DataItem.fontSize := v\<rparr>) | _ \<Rightarrow> item)"
| "assign (F_bold v) item =
     (case item of Text t \<Rightarrow> Text (t\<lparr>TextItem.bold := v\<rparr>)
      | Data d \<Rightarrow> Data (d\<lparr>DataItem.bold := v\<rparr>) | _ \<Rightarrow> item)"
| "assign (F_align v) item =
     (case item of Text t \<Rightarrow> Text (t\<lparr>TextItem.align := v\<rparr>)
      | Data d \<Rightarrow> Data (d\<lparr>DataItem.align := v\<rparr>) | _ \<Rightarrow> item)"
| "assign (F_column v) item =
     (case item of Data d \<Rightarrow> Data (d\<lparr>DataItem.column := v\<rparr>) | _ \<Rightarrow> item)"
| "assign (F_prefix v) item =
     (case item of Data d \<Rightarrow> Data (d\<lparr>prefix := v\<rparr>) | _ \<Rightarrow> item)"
| "assign (F_suffix v) item =
     (case item of Data d \<Rightarrow> Data (d\<lparr>suffix := v\<rparr>) | _ \<Rightarrow> item)"
| "assign (F_emptyFallback v) item =
     (case item of Data d \<Rightarrow> Data (d\<lparr>emptyFallback := v\<rparr>) | _ \<Rightarrow> item)"
| "assign (F_condition v) item =
     (case item of Data d \<Rightarrow> Data (d\<lparr>condition := v\<rparr>) | _ \<Rightarrow> item)"
| "assign (F_background v) item =
     (case item of Rectangle r \<Rightarrow> Rectangle (r\<lparr>background := v\<rparr>) | _ \<Rightarrow> item)"
| "assign (F_borderColor v) item =
     (case item of Rectangle r \<Rightarrow> Rectangle (r\<lparr>borderColor := v\<rparr>) | _ \<Rightarrow> item)"
| "assign (F_borderWidth v) item =
     (case item of Rectangle r \<Rightarrow> Rectangle (r\<lparr>borderWidth := v\<rparr>) | _ \<Rightarrow> item)"
| "assign (F_borderRadius v) item =
     (case item of Rectangle r \<Rightarrow> Rectangle (r\<lparr>borderRadius := v\<rparr>) | _ \<Rightarrow> item)"
| "assign (F_color v) item =
     (case item of Line l \<Rightarrow> Line (l\<lparr>color := v\<rparr>) | _ \<Rightarrow> item)"
| "assign (F_thickness v) item =
     (case item of Line l \<Rightarrow> Line (l\<lparr>thickness := v\<rparr>) | _ \<Rightarrow> item)"
| "assign (F_orientation v) item =
     (case item of Line l \<Rightarrow> Line (l\<lparr>orientation := v\<rparr>) | _ \<Rightarrow> item)"

text \<open>\<^verbatim>\<open>{ ...item, ...payload }\<close>\<close>

definition spread :: "CanvasItem \<Rightarrow> Payload \<Rightarrow> CanvasItem" where
  "spread item payload = foldl (\<lambda>acc f. assign f acc) item payload"

text \<open>
  \<^verbatim>\<open>
  const handleItemUpdate = (id, payload) => {
    setItems((prev) =>
      prev.map((item) => (item.id === id ? { ...item, ...payload } : item)))
  }
  \<close>
  (lines 249 to 253)
\<close>

definition handleItemUpdate :: "jsstring \<Rightarrow> Payload \<Rightarrow> AppState \<Rightarrow> AppState" where
  "handleItemUpdate i payload st =
     st\<lparr>items := map (\<lambda>item. if itemId item = i then spread item payload else item) (items st)\<rparr>"

text \<open>
  \<^verbatim>\<open>
  const handleDelete = (id) => {
    setItems((prev) => prev.filter((item) => item.id !== id))
    setSelectedId((prev) => (prev === id ? null : prev))
  }
  \<close>
  (lines 273 to 276)
\<close>

definition handleDelete :: "jsstring \<Rightarrow> AppState \<Rightarrow> AppState" where
  "handleDelete i st =
     st\<lparr>items := filter (\<lambda>item. itemId item \<noteq> i) (items st),
        selectedId := (if selectedId st = Some i then None else selectedId st)\<rparr>"

text \<open>\<^verbatim>\<open>setSelectedId(v)\<close>; an item's \<^verbatim>\<open>onMouseDown\<close> calls it with \<^verbatim>\<open>item.id\<close> (lines 444, 477).\<close>

definition setSelectedId :: "jsstring option \<Rightarrow> AppState \<Rightarrow> AppState" where
  "setSelectedId v st = st\<lparr>selectedId := v\<rparr>"

subsection \<open>Adding an item\<close>

text \<open>
  \<^verbatim>\<open>handleAddItem\<close> (lines 179 to 246). The fresh identifier of \<^verbatim>\<open>generateId()\<close> is a
  parameter. The default text is U+30C6 U+30AD U+30B9 U+30C8 ("tekisuto"), the default
  fallback U+FF08 U+672A U+8A2D U+5B9A U+FF09 ("(misettei)", not set).
\<close>

definition newItem :: "CanvasItemType \<Rightarrow> jsstring \<Rightarrow> CanvasItem" where
  "newItem ty i =
     (case ty of
        text_t \<Rightarrow>
          Text \<lparr>id' = i, x = 40, y = 40, width = 160, height = 60,
                text' = [0x30C6, 0x30AD, 0x30B9, 0x30C8], fontSize = 16, bold = False,
                align = left\<rparr>
      | data_t \<Rightarrow>
          Data \<lparr>id' = i, x = 40, y = 40, width = 160, height = 60,
                column = None, fontSize = 16, bold = False, align = left, prefix = [],
                suffix = [], emptyFallback = [0xFF08, 0x672A, 0x8A2D, 0x5B9A, 0xFF09],
                condition =
                  \<lparr>enabled = False, column = Some Namae, operator = equals, value' = [],
                   trueText = [], falseText = []\<rparr>\<rparr>
      | rectangle_t \<Rightarrow>
          Rectangle \<lparr>id' = i, x = 40, y = 40, width = 160, height = 60,
                     background = ascii ''#f5f5f5'', borderColor = ascii ''#999999'',
                     borderWidth = 1, borderRadius = 4\<rparr>
      | line_t \<Rightarrow>
          Line \<lparr>id' = i, x = 40, y = 40, width = 160, height = 2,
                color = ascii ''#333333'', thickness = 2, orientation = horizontal\<rparr>)"

definition handleAddItem :: "CanvasItemType \<Rightarrow> jsstring \<Rightarrow> AppState \<Rightarrow> AppState" where
  "handleAddItem ty i st =
     (if paperSize st = None then st
      else st\<lparr>items := items st @ [newItem ty i], selectedId := Some i\<rparr>)"

subsection \<open>Line geometry\<close>

text \<open>
  \<^verbatim>\<open>
  const applyLineResize = (target: LineItem, nextWidth, nextHeight, position) => {
    const rawThickness = target.orientation === 'horizontal' ? nextHeight : nextWidth
    const thickness = Math.max(rawThickness, 1)
    handleItemUpdate(target.id, {
      width: target.orientation === 'horizontal' ? nextWidth : thickness,
      height: target.orientation === 'horizontal' ? thickness : nextHeight,
      x: position.x,
      y: position.y,
      thickness,
    })
  }
  \<close>
  (lines 255 to 271)
\<close>

definition lineResizePayload :: "LineItem \<Rightarrow> real \<Rightarrow> real \<Rightarrow> real \<times> real \<Rightarrow> Payload" where
  "lineResizePayload target nextWidth nextHeight position =
     (let rawThickness = (if orientation target = horizontal then nextHeight else nextWidth);
          thickness = max rawThickness 1
      in [F_width (if orientation target = horizontal then nextWidth else thickness),
          F_height (if orientation target = horizontal then thickness else nextHeight),
          F_x (fst position),
          F_y (snd position),
          F_thickness thickness])"

definition applyLineResize ::
  "LineItem \<Rightarrow> real \<Rightarrow> real \<Rightarrow> real \<times> real \<Rightarrow> AppState \<Rightarrow> AppState" where
  "applyLineResize target nextWidth nextHeight position st =
     handleItemUpdate (id' target) (lineResizePayload target nextWidth nextHeight position) st"

text \<open>
  The thickness input of the property panel (lines 896 to 912); \<open>thickness'\<close> is
  \<^verbatim>\<open>Number(event.target.value)\<close> and \<open>sel\<close> is the selected item, a line:
  \<^verbatim>\<open>
  handleItemUpdate(selectedItem.id, {
    thickness,
    height: selectedItem.orientation === 'horizontal' ? thickness : selectedItem.height,
    width: selectedItem.orientation === 'vertical' ? thickness : selectedItem.width,
  })
  \<close>
\<close>

definition thicknessPayload :: "LineItem \<Rightarrow> real \<Rightarrow> Payload" where
  "thicknessPayload sel thickness' =
     [F_thickness thickness',
      F_height (if orientation sel = horizontal then thickness' else height sel),
      F_width (if orientation sel = vertical then thickness' else width sel)]"

definition setThickness :: "LineItem \<Rightarrow> real \<Rightarrow> AppState \<Rightarrow> AppState" where
  "setThickness sel thickness' st =
     handleItemUpdate (id' sel) (thicknessPayload sel thickness') st"

text \<open>
  The orientation select of the property panel (lines 916 to 946); \<open>orientation'\<close> is
  the chosen value:
  \<^verbatim>\<open>
  const currentLength =
    selectedItem.orientation === 'horizontal' ? selectedItem.width : selectedItem.height
  const currentThickness =
    selectedItem.orientation === 'horizontal' ? selectedItem.height : selectedItem.width
  handleItemUpdate(selectedItem.id, {
    orientation,
    width: orientation === 'horizontal' ? currentLength : currentThickness,
    height: orientation === 'vertical' ? currentLength : currentThickness,
    thickness: Math.max(currentThickness, 1),
  \<close>
  These are lines 919 to 938. Lines 939 to 944 of the file are what is left of an
  earlier version of the same object literal (a dangling \<^verbatim>\<open>? ... : ...\<close> followed by
  a second \<^verbatim>\<open>height\<close> entry with \<^verbatim>\<open>Math.max(selectedItem.height, 120)\<close>); they do
  not continue the expression before them and are not part of the model. Whatever is
  made of them, they name no \<^verbatim>\<open>width\<close> and no \<^verbatim>\<open>thickness\<close> entry.
\<close>

definition orientationPayload :: "LineItem \<Rightarrow> Orientation \<Rightarrow> Payload" where
  "orientationPayload sel orientation' =
     (let currentLength = (if orientation sel = horizontal then width sel else height sel);
          currentThickness = (if orientation sel = horizontal then height sel else width sel)
      in [F_orientation orientation',
          F_width (if orientation' = horizontal then currentLength else currentThickness),
          F_height (if orientation' = vertical then currentLength else currentThickness),
          F_thickness (max currentThickness 1)])"

definition setOrientation :: "LineItem \<Rightarrow> Orientation \<Rightarrow> AppState \<Rightarrow> AppState" where
  "setOrientation sel orientation' st =
     handleItemUpdate (id' sel) (orientationPayload sel orientation') st"

text \<open>
  The two handlers read \<^verbatim>\<open>selectedItem\<close> of the current render. A run of such edits on
  the selected line: each step looks the selected item up and, when it is a line,
  applies the handler to it.
\<close>

datatype LineEdit = SetThickness real | SetOrientation Orientation

definition lineEdit :: "LineEdit \<Rightarrow> AppState \<Rightarrow> AppState" where
  "lineEdit e st =
     (case selectedItem st of
        Some (Line sel) \<Rightarrow>
          (case e of
             SetThickness t \<Rightarrow> setThickness sel t st
           | SetOrientation orientation' \<Rightarrow> setOrientation sel orientation' st)
      | _ \<Rightarrow> st)"

definition lineEdits :: "LineEdit list \<Rightarrow> AppState \<Rightarrow> AppState" where
  "lineEdits es st = foldl (\<lambda>acc e. lineEdit e acc) st es"

text \<open>The invariant of a line item that the specification states.\<close>

definition lineInvariant :: "LineItem \<Rightarrow> bool" where
  "lineInvariant l =
     ((if orientation l = horizontal then height l = thickness l else width l = thickness l)
      \<and> 1 \<le> thickness l)"

section \<open>Preview of a data item\<close>

text \<open>
  \<^verbatim>\<open>
  const evaluateCondition = (dataItem: DataItem) => {
    const { condition } = dataItem
    if (!condition.enabled || !condition.column) {
      return null
    }
    const sourceValue = String(DB_SAMPLE[condition.column] ?? '')
    const target = condition.value
    let matched = false
    if (condition.operator === 'equals') {
      matched = sourceValue === target
    } else if (condition.operator === 'notEquals') {
      matched = sourceValue !== target
    } else if (condition.operator === 'contains') {
      matched = sourceValue.includes(target)
    }
    return matched ? condition.trueText : condition.falseText
  }
  \<close>
  (lines 279 to 295). \<^verbatim>\<open>DB_SAMPLE[condition.column]\<close> is an optional value, \<open>None\<close>
  for \<^verbatim>\<open>undefined\<close>, and \<^verbatim>\<open>?? ''\<close> replaces \<open>None\<close> by the empty string.
\<close>

definition evaluateCondition :: "DataItem \<Rightarrow> jsstring option" where
  "evaluateCondition dataItem =
     (let cond = condition dataItem in
      if \<not> enabled cond \<or> ConditionSetting.column cond = None then None
      else
        (let sourceValue =
               String (case map_option DB_SAMPLE (ConditionSetting.column cond) of
                         Some v \<Rightarrow> v | None \<Rightarrow> Str []);
             target = value' cond;
             matched =
               (case operator cond of
                  equals \<Rightarrow> sourceValue = target
                | notEquals \<Rightarrow> sourceValue \<noteq> target
                | contains \<Rightarrow> strIncludes sourceValue target)
         in Some (if matched then trueText cond else falseText cond)))"

text \<open>
  \<^verbatim>\<open>
  const renderPreviewText = (item: DataItem) => {
    const value = item.column ? DB_SAMPLE[item.column] : null
    const evaluated = evaluateCondition(item)
    if (evaluated !== null && evaluated !== undefined && evaluated !== '') {
      return evaluated
    }
    if (value === null || value === undefined || value === '') {
      return item.emptyFallback
    }
    return `${item.prefix}${value}${item.suffix}`
  }
  \<close>
  (lines 297 to 307)
\<close>

definition renderPreviewText :: "DataItem \<Rightarrow> jsstring" where
  "renderPreviewText item =
     (let value = map_option DB_SAMPLE (DataItem.column item);
          evaluated = evaluateCondition item;
          unconditioned =
            (case value of
               None \<Rightarrow> emptyFallback item
             | Some v \<Rightarrow>
                 if v = Str [] then emptyFallback item
                 else prefix item @ String v @ suffix item)
      in case evaluated of
           None \<Rightarrow> unconditioned
         | Some e \<Rightarrow> if e \<noteq> [] then e else unconditioned)"

section \<open>Reset and the paper size\<close>

text \<open>
  \<^verbatim>\<open>resetDocument\<close> (lines 309 to 314), and the same four calls in the callback that
  the paper-size select hands to \<^verbatim>\<open>setTimeout\<close> (lines 341 to 346).
\<close>

definition resetDocument :: "AppState \<Rightarrow> AppState" where
  "resetDocument st = st\<lparr>items := [], selectedId := None, pan := (0, 0), isPanning := False\<rparr>"

text \<open>
  The \<^verbatim>\<open>onChange\<close> of the paper-size select in the header (lines 338 to 347):
  \<^verbatim>\<open>
  const next = event.target.value as PaperSizeKey
  setPaperSize(next)
  setTimeout(() => { setItems([]); setSelectedId(null); setPan({x: 0, y: 0}); setIsPanning(false) }, 0)
  \<close>
  A handler runs to its end before anything else does; its state updates are those of
  the render that follows it. A callback given to \<^verbatim>\<open>setTimeout\<close> is queued and runs as
  a task of its own once the handler has returned, timers of equal delay in the order
  in which they were set. The running program is the state and the queue of pending
  timer callbacks; the only callback the program ever queues is the reset.
\<close>

datatype Task = ResetTask

record Runtime =
  state :: AppState
  timers :: "Task list"

fun runTask :: "Task \<Rightarrow> AppState \<Rightarrow> AppState" where
  "runTask ResetTask st = resetDocument st"

definition paperSelectOnChange :: "PaperSizeKey \<Rightarrow> Runtime \<Rightarrow> Runtime" where
  "paperSelectOnChange next' rt =
     \<lparr>state = (state rt)\<lparr>paperSize := Some next'\<rparr>, timers = timers rt @ [ResetTask]\<rparr>"

text \<open>The browser runs the oldest pending timer callback; with none pending nothing happens.\<close>

definition timerFires :: "Runtime \<Rightarrow> Runtime" where
  "timerFires rt =
     (case timers rt of
        [] \<Rightarrow> rt
      | t # ts \<Rightarrow> \<lparr>state = runTask t (state rt), timers = ts\<rparr>)"

text \<open>
  The paper-size select of the overlay that is shown while no paper size is chosen
  (line 1084): \<^verbatim>\<open>onChange={(event) => setPaperSize(event.target.value as PaperSizeKey)}\<close>.
  It sets no timer.
\<close>

definition overlaySelectOnChange :: "PaperSizeKey \<Rightarrow> Runtime \<Rightarrow> Runtime" where
  "overlaySelectOnChange next' rt = rt\<lparr>state := (state rt)\<lparr>paperSize := Some next'\<rparr>\<rparr>"

subsection \<open>The other handlers as events\<close>

text \<open>
  The handlers above as the events of a run. \<open>Reset\<close> is the reset button of the header
  and \<open>SetMode\<close> its mode switch (lines 320 to 361); the other events belong to the
  workspace, which is rendered only when a paper size is chosen (line 365).
\<close>

datatype Event =
  AddItem CanvasItemType jsstring
| ItemUpdate jsstring Payload
| Delete jsstring
| Select jsstring
| LineResize LineItem real real "real \<times> real"
| Edit LineEdit
| Reset
| SetMode Mode

fun handleEvent :: "Event \<Rightarrow> AppState \<Rightarrow> AppState" where
  "handleEvent (AddItem ty i) st = handleAddItem ty i st"
| "handleEvent (ItemUpdate i payload) st = handleItemUpdate i payload st"
| "handleEvent (Delete i) st = handleDelete i st"
| "handleEvent (Select i) st = setSelectedId (Some i) st"
| "handleEvent (LineResize target nw nh position) st = applyLineResize target nw nh position st"
| "handleEvent (Edit e) st = lineEdit e st"
| "handleEvent Reset st = resetDocument st"
| "handleEvent (SetMode m) st = st\<lparr>mode := m\<rparr>"

fun workspaceEvent :: "Event \<Rightarrow> bool" where
  "workspaceEvent Reset = False"
| "workspaceEvent (SetMode m) = False"
| "workspaceEvent e = True"

definition userEvents :: "Event list \<Rightarrow> Runtime \<Rightarrow> Runtime" where
  "userEvents evs rt = rt\<lparr>state := foldl (\<lambda>st e. handleEvent e st) (state rt) evs\<rparr>"

text \<open>
  A run of the program is a list of steps from the initial state. A workspace event
  can happen only with a paper size chosen, and the overlay's select only while none
  is chosen (line 1079); a step that cannot happen gives \<open>None\<close>.
\<close>

datatype Step =
  User Event
| HeaderSelect PaperSizeKey
| OverlaySelect PaperSizeKey
| TimerFires

fun step :: "Step \<Rightarrow> Runtime \<Rightarrow> Runtime option" where
  "step (User e) rt =
     (if workspaceEvent e \<and> paperSize (state rt) = None then None
      else Some (userEvents [e] rt))"
| "step (HeaderSelect k) rt = Some (paperSelectOnChange k rt)"
| "step (OverlaySelect k) rt =
     (if paperSize (state rt) = None then Some (overlaySelectOnChange k rt) else None)"
| "step TimerFires rt = Some (timerFires rt)"

fun run :: "Step list \<Rightarrow> Runtime \<Rightarrow> Runtime option" where
  "run [] rt = Some rt"
| "run (s # ss) rt = (case step s rt of None \<Rightarrow> None | Some rt' \<Rightarrow> run ss rt')"

definition initialRuntime :: Runtime where
  "initialRuntime = \<lparr>state = initialState, timers = []\<rparr>"

section \<open>Tokens of a text\<close>

text \<open>
  A text has a token when somewhere in it an opening brace is followed by a non-empty
  run of code units that are not braces and then by a closing brace.
\<close>

fun hasToken :: "jsstring \<Rightarrow> bool" where
  "hasToken [] = False"
| "hasToken (c # cs) =
     ((c = LBRACE \<and> takeWhile notBrace cs \<noteq> []
        \<and> (case dropWhile notBrace cs of [] \<Rightarrow> False | r # rest \<Rightarrow> r = RBRACE))
      \<or> hasToken cs)"

section \<open>Example documents\<close>

text \<open>
  A line item as \<^verbatim>\<open>handleAddItem('line')\<close> creates it, documents built by adding items
  to an empty A4 document, and a data item whose condition compares the column "sex"
  with "dansei" (U+7537 U+6027). They are the concrete inputs of the examples below.
\<close>

definition exampleLine :: LineItem where
  "exampleLine =
     \<lparr>id' = ascii ''L1'', x = 40, y = 40, width = 160, height = 2,
      color = ascii ''#333333'', thickness = 2, orientation = horizontal\<rparr>"

definition exampleState :: AppState where
  "exampleState = handleAddItem line_t (ascii ''L1'') (initialState\<lparr>paperSize := Some A4\<rparr>)"

definition exampleState2 :: AppState where
  "exampleState2 = handleAddItem text_t (ascii ''T2'') exampleState"

text \<open>The example document after the height field of the property panel is set to 0.\<close>

definition thinLineState :: AppState where
  "thinLineState = handleItemUpdate (ascii ''L1'') [F_height 0] exampleState"

definition exampleData :: "DbColumn option \<Rightarrow> bool \<Rightarrow> jsstring \<Rightarrow> DataItem" where
  "exampleData boundColumn enabled' trueText' =
     \<lparr>id' = ascii ''D1'', x = 40, y = 40, width = 160, height = 60,
      column = boundColumn, fontSize = 16, bold = False, align = left,
      prefix = ascii ''Age: '', suffix = ascii ''!'', emptyFallback = ascii ''N/A'',
      condition =
        \<lparr>enabled = enabled', column = Some Seibetsu, operator = equals,
         value' = [0x7537, 0x6027], trueText = trueText', falseText = ascii ''Ms.''\<rparr>\<rparr>"

lemma exampleState_items: "items exampleState = [Line exampleLine]"
  by (simp add: exampleState_def handleAddItem_def initialState_def newItem_def exampleLine_def)

lemma exampleState_selectedId: "selectedId exampleState = Some (ascii ''L1'')"
  by (simp add: exampleState_def handleAddItem_def initialState_def)

lemma exampleState2_items:
  "items exampleState2 = [Line exampleLine, newItem text_t (ascii ''T2'')]"
  by (simp add: exampleState2_def handleAddItem_def exampleState_items)
     (simp add: exampleState_def handleAddItem_def initialState_def)

lemma exampleState2_selectedId: "selectedId exampleState2 = Some (ascii ''T2'')"
  by (simp add: exampleState2_def handleAddItem_def)
     (simp add: exampleState_def handleAddItem_def initialState_def)

lemma example_ids:
  "id' exampleLine = ascii ''L1''"
  "itemId (newItem text_t (ascii ''T2'')) = ascii ''T2''"
  by (simp_all add: exampleLine_def newItem_def)

lemma exampleState_selected: "selectedItem exampleState = Some (Line exampleLine)"
  by (simp add: selectedItem_def exampleState_items exampleState_selectedId example_ids)

lemma thinLineState_items: "items thinLineState = [Line (exampleLine\<lparr>height := 0\<rparr>)]"
  by (simp add: thinLineState_def handleItemUpdate_def exampleState_items example_ids spread_def)

lemma exampleData_eval:
  "evaluateCondition (exampleData b True t) = Some t"
  "evaluateCondition (exampleData b False t) = None"
  by (simp_all add: evaluateCondition_def exampleData_def)

section \<open>Facts about the helpers\<close>

lemma itemId_assign: "itemId (assign f item) = itemId item"
  by (cases f; cases item; simp)

lemma itemId_spread: "itemId (spread item p) = itemId item"
  unfolding spread_def
  by (induction p arbitrary: item) (simp_all add: itemId_assign)

lemma startsWith_iff: "startsWith s t \<longleftrightarrow> (\<exists>post. s = t @ post)"
  by (induction s t rule: startsWith.induct) auto

lemma strIncludes_iff: "strIncludes s t \<longleftrightarrow> (\<exists>pre post. s = pre @ t @ post)"
proof (induction s)
  case Nil
  show ?case by simp
next
  case (Cons d s)
  show ?case
  proof
    assume "strIncludes (d # s) t"
    then consider "startsWith (d # s) t" | "strIncludes s t" by auto
    then show "\<exists>pre post. d # s = pre @ t @ post"
    proof cases
      case 1
      then obtain post where "d # s = t @ post" by (auto simp: startsWith_iff)
      then have "d # s = [] @ t @ post" by simp
      then show ?thesis by blast
    next
      case 2
      then obtain pre post where "s = pre @ t @ post" using Cons.IH by auto
      then have "d # s = (d # pre) @ t @ post" by simp
      then show ?thesis by blast
    qed
  next
    assume "\<exists>pre post. d # s = pre @ t @ post"
    then obtain pre post where e: "d # s = pre @ t @ post" by auto
    show "strIncludes (d # s) t"
    proof (cases pre)
      case Nil
      with e have "startsWith (d # s) t" by (auto simp: startsWith_iff)
      then show ?thesis by simp
    next
      case (Cons a pre')
      with e have "s = pre' @ t @ post" by simp
      then have "strIncludes s t" using Cons.IH by auto
      then show ?thesis by simp
    qed
  qed
qed

lemma digitsOf_nonempty: "digitsOf n \<noteq> []"
  by (subst digitsOf.simps) simp

lemma String_empty_iff: "String v = [] \<longleftrightarrow> v = Str []"
  by (cases v) (auto simp: digitsOf_nonempty)

section \<open>Placeholder substitution: tokens and trimming\<close>

lemma notBrace_RBRACE [simp]: "\<not> notBrace RBRACE"
  by (simp add: notBrace_def)

lemma notBrace_LBRACE [simp]: "\<not> notBrace LBRACE"
  by (simp add: notBrace_def)

lemma LBRACE_neq_RBRACE [simp]: "LBRACE \<noteq> RBRACE"
  by (simp add: LBRACE_def RBRACE_def)

lemma replaceTokens_single:
  assumes "name \<noteq> []" and "\<forall>u \<in> set name. notBrace u"
  shows "replaceTokens f (LBRACE # name @ RBRACE # post) = f name @ replaceTokens f post"
proof -
  have d: "dropWhile notBrace (name @ RBRACE # post) = RBRACE # post"
    using assms(2) by (simp add: dropWhile_append)
  have t: "takeWhile notBrace (name @ RBRACE # post) = name"
    using assms(2) by (simp add: takeWhile_append)
  show ?thesis using assms(1) by (simp add: d t)
qed

text \<open>
  A token is replaced wherever it stands: what comes before it and what comes after it
  are scanned on their own.
\<close>

lemma replaceTokens_token:
  assumes "name \<noteq> []" and "\<forall>u \<in> set name. notBrace u"
  shows "replaceTokens f (pre @ LBRACE # name @ RBRACE # post) =
           replaceTokens f pre @ f name @ replaceTokens f post"
proof (induction f pre rule: replaceTokens.induct)
  case (1 f)
  show ?case using assms by (simp add: replaceTokens_single)
next
  case (2 f c cs)
  let ?X = "LBRACE # name @ RBRACE # post"
  show ?case
  proof (cases "c = LBRACE")
    case False
    with 2 show ?thesis by simp
  next
    case True
    show ?thesis
    proof (cases "dropWhile notBrace cs")
      case Nil
      then have all: "\<forall>u \<in> set cs. notBrace u" by simp
      then have "dropWhile notBrace (cs @ ?X) = ?X"
        by (simp add: dropWhile_append)
      then have "replaceTokens f (c # cs @ ?X) = c # replaceTokens f (cs @ ?X)"
        using True by simp
      moreover have "replaceTokens f (c # cs) = c # replaceTokens f cs"
        by (simp add: True Nil)
      ultimately show ?thesis using "2.IH"(1) [OF True Nil] by simp
    next
      case (Cons r rest)
      then have ex: "\<not> (\<forall>u \<in> set cs. notBrace u)"
        by (metis dropWhile_eq_Nil_conv list.distinct(1))
      have d: "dropWhile notBrace (cs @ ?X) = r # rest @ ?X"
        using ex Cons by (auto simp: dropWhile_append)
      have t: "takeWhile notBrace (cs @ ?X) = takeWhile notBrace cs"
        using ex by (auto simp: takeWhile_append)
      show ?thesis
      proof (cases "r = RBRACE \<and> takeWhile notBrace cs \<noteq> []")
        case m: True
        have "replaceTokens f (c # cs @ ?X) =
                f (takeWhile notBrace cs) @ replaceTokens f (rest @ ?X)"
          using True m by (simp add: d t)
        moreover have "replaceTokens f (c # cs) =
                f (takeWhile notBrace cs) @ replaceTokens f rest"
          using m by (simp add: True Cons)
        ultimately show ?thesis using "2.IH"(2) [OF True Cons m] by simp
      next
        case m: False
        have "replaceTokens f (c # cs @ ?X) = c # replaceTokens f (cs @ ?X)"
          using True m by (auto simp: d t)
        moreover have "replaceTokens f (c # cs) = c # replaceTokens f cs"
          using m by (auto simp: True Cons)
        ultimately show ?thesis using "2.IH"(3) [OF True Cons m] by simp
      qed
    qed
  qed
qed

text \<open>\<open>hasToken\<close> finds exactly the texts that contain a token.\<close>

lemma hasToken_iff:
  "hasToken t \<longleftrightarrow>
     (\<exists>pre name post. t = pre @ LBRACE # name @ RBRACE # post \<and> name \<noteq> []
        \<and> (\<forall>u \<in> set name. notBrace u))"
proof
  assume "hasToken t"
  then show "\<exists>pre name post. t = pre @ LBRACE # name @ RBRACE # post \<and> name \<noteq> []
        \<and> (\<forall>u \<in> set name. notBrace u)"
  proof (induction t)
    case Nil
    then show ?case by simp
  next
    case (Cons c cs)
    show ?case
    proof (cases "hasToken cs")
      case True
      with Cons.IH obtain pre name post where
        "cs = pre @ LBRACE # name @ RBRACE # post" "name \<noteq> []" "\<forall>u \<in> set name. notBrace u"
        by auto
      then have "c # cs = (c # pre) @ LBRACE # name @ RBRACE # post \<and> name \<noteq> []
        \<and> (\<forall>u \<in> set name. notBrace u)" by simp
      then show ?thesis by blast
    next
      case False
      with Cons.prems obtain rest where
        h: "c = LBRACE" "takeWhile notBrace cs \<noteq> []" "dropWhile notBrace cs = RBRACE # rest"
        by (auto split: list.splits)
      have "cs = takeWhile notBrace cs @ dropWhile notBrace cs" by simp
      with h have "c # cs = [] @ LBRACE # takeWhile notBrace cs @ RBRACE # rest" by simp
      moreover have "\<forall>u \<in> set (takeWhile notBrace cs). notBrace u"
        by (auto dest: set_takeWhileD)
      ultimately show ?thesis using h(2) by blast
    qed
  qed
next
  assume "\<exists>pre name post. t = pre @ LBRACE # name @ RBRACE # post \<and> name \<noteq> []
        \<and> (\<forall>u \<in> set name. notBrace u)"
  then obtain pre name post where
    t: "t = pre @ LBRACE # name @ RBRACE # post" and n: "name \<noteq> []"
    and b: "\<forall>u \<in> set name. notBrace u" by auto
  have d: "dropWhile notBrace (name @ RBRACE # post) = RBRACE # post"
    using b by (simp add: dropWhile_append)
  have k: "takeWhile notBrace (name @ RBRACE # post) = name"
    using b by (simp add: takeWhile_append)
  have "hasToken (pre @ LBRACE # name @ RBRACE # post)"
    by (induction pre) (simp_all add: d k n)
  with t show "hasToken t" by simp
qed

lemma hasToken_LBRACE: "hasToken t \<Longrightarrow> LBRACE \<in> set t"
  by (induction t) auto

lemma replaceTokens_no_token: "\<not> hasToken t \<Longrightarrow> replaceTokens f t = t"
proof (induction f t rule: replaceTokens.induct)
  case (1 f)
  show ?case by simp
next
  case (2 f c cs)
  from "2.prems" have nc: "\<not> hasToken cs" by simp
  show ?case
  proof (cases "c = LBRACE")
    case False
    with 2 nc show ?thesis by simp
  next
    case True
    show ?thesis
    proof (cases "dropWhile notBrace cs")
      case Nil
      with "2.IH"(1) [OF True Nil nc] show ?thesis by (simp add: True Nil)
    next
      case (Cons r rest)
      have nm: "\<not> (r = RBRACE \<and> takeWhile notBrace cs \<noteq> [])"
        using "2.prems" True by (auto simp: Cons)
      with "2.IH"(3) [OF True Cons nm nc] show ?thesis using nm by (auto simp: True Cons)
    qed
  qed
qed

lemma isWhiteSpace_notBrace: "isWhiteSpace u \<Longrightarrow> notBrace u"
  by (auto simp: isWhiteSpace_def notBrace_def LBRACE_def RBRACE_def)

lemma trim_padded:
  assumes "\<forall>u \<in> set ws1. isWhiteSpace u" and "\<forall>u \<in> set ws2. isWhiteSpace u"
    and "core \<noteq> []" and "\<not> isWhiteSpace (hd core)" and "\<not> isWhiteSpace (last core)"
  shows "trim (ws1 @ core @ ws2) = core"
proof -
  from assms(3) obtain h tl' where c: "core = h # tl'" by (cases core) auto
  with assms(4) have h: "\<not> isWhiteSpace h" by simp
  have 1: "dropWhile isWhiteSpace (ws1 @ core @ ws2) = core @ ws2"
    using assms(1) h by (simp add: dropWhile_append c)
  from assms(3) have r: "rev core = last core # rev (butlast core)"
    by (metis append_butlast_last_id rev_singleton_conv rev_append append_Cons append_Nil)
  have 2: "dropWhile isWhiteSpace (rev (core @ ws2)) = rev core"
    using assms(2,5) by (simp add: dropWhile_append) (simp add: r)
  show ?thesis by (simp only: trim_def 1 2 rev_rev_ident)
qed

lemma trim_all_space: "\<forall>u \<in> set ws. isWhiteSpace u \<Longrightarrow> trim ws = []"
proof -
  assume "\<forall>u \<in> set ws. isWhiteSpace u"
  then have "dropWhile isWhiteSpace ws = []" by simp
  then show ?thesis by (simp only: trim_def) simp
qed

lemma columnName_shape:
  "columnName c \<noteq> []" "\<not> isWhiteSpace (hd (columnName c))"
  "\<not> isWhiteSpace (last (columnName c))" "\<forall>u \<in> set (columnName c). notBrace u"
  by (cases c; simp add: isWhiteSpace_def notBrace_def LBRACE_def RBRACE_def)+

lemma isDbColumn_iff: "isDbColumn k \<longleftrightarrow> (\<exists>c. columnName c = k)"
proof
  assume "isDbColumn k"
  then show "\<exists>c. columnName c = k" by (auto simp: isDbColumn_def)
next
  assume "\<exists>c. columnName c = k"
  then obtain c where "columnName c = k" by auto
  then show "isDbColumn k" by (cases c) (auto simp: isDbColumn_def dbColumns_def)
qed

lemma sampleAt_columnName: "sampleAt (columnName c) = Some (DB_SAMPLE c)"
  by (cases c) (simp_all add: sampleAt_def dbColumns_def)

lemma replacer_known: "columnName c = trim rawKey \<Longrightarrow> replacer rawKey = String (DB_SAMPLE c)"
  using sampleAt_columnName [of c] isDbColumn_iff [of "trim rawKey"]
  by (auto simp: replacer_def Let_def)

lemma replacer_unknown:
  "\<not> isDbColumn (trim rawKey) \<Longrightarrow> replacer rawKey = LBRACE # rawKey @ [RBRACE]"
  by (simp add: replacer_def Let_def)

text \<open>
  Claim C5, as amended. The claim says that a token whose name is not a field of the
  record is left as it stands. The code looks the name up after trimming it, so a token
  whose name is a field name with white space around it is substituted too (the
  counterexample below). What holds: a token whose trimmed name is a field of the
  record is replaced by the text of that field's value, a token whose trimmed name is
  no field is left as it stands with its braces, in both cases whatever surrounds the
  token, and a text without a token is returned unchanged. Every field of the sample
  record has a value, so the empty string for a missing value never shows.
\<close>

theorem injectDbPlaceholders_tokens:
  "(name \<noteq> [] \<and> (\<forall>u \<in> set name. notBrace u) \<and> columnName c = trim name \<longrightarrow>
      injectDbPlaceholders (pre @ LBRACE # name @ RBRACE # post) =
        injectDbPlaceholders pre @ String (DB_SAMPLE c) @ injectDbPlaceholders post)
   \<and> (name \<noteq> [] \<and> (\<forall>u \<in> set name. notBrace u) \<and> \<not> isDbColumn (trim name) \<longrightarrow>
      injectDbPlaceholders (pre @ LBRACE # name @ RBRACE # post) =
        injectDbPlaceholders pre @ LBRACE # name @ RBRACE # injectDbPlaceholders post)
   \<and> (\<not> hasToken t \<longrightarrow> injectDbPlaceholders t = t)"
  by (simp add: injectDbPlaceholders_def replaceTokens_token replaceTokens_no_token
      replacer_known replacer_unknown)

text \<open>
  The two examples of the specification: "Hello {namae}" becomes "Hello Yamada Tarou",
  and "{unknown}" stays.
\<close>

theorem injectDbPlaceholders_tokens_witness:
  "injectDbPlaceholders (ascii ''Hello '' @ LBRACE # columnName Namae @ [RBRACE]) =
     ascii ''Hello '' @ [0x5C71, 0x7530, 0x20, 0x592A, 0x90CE]
   \<and> injectDbPlaceholders (LBRACE # ascii ''unknown'' @ [RBRACE]) =
       LBRACE # ascii ''unknown'' @ [RBRACE]"
proof -
  have n1: "columnName Namae \<noteq> [] \<and> (\<forall>u \<in> set (columnName Namae). notBrace u)
      \<and> columnName Namae = trim (columnName Namae)"
    by (simp add: notBrace_def LBRACE_def RBRACE_def trim_def isWhiteSpace_def)
  have n2: "ascii ''unknown'' \<noteq> [] \<and> (\<forall>u \<in> set (ascii ''unknown''). notBrace u)
      \<and> \<not> isDbColumn (trim (ascii ''unknown''))"
    by (simp add: ascii_def notBrace_def LBRACE_def RBRACE_def trim_def isWhiteSpace_def
        isDbColumn_def dbColumns_def)
  have h: "\<not> hasToken (ascii ''Hello '')"
    by (simp add: ascii_def LBRACE_def)
  have e: "\<not> hasToken []"
    by simp
  show ?thesis
    using injectDbPlaceholders_tokens
        [of "columnName Namae" Namae "ascii ''Hello ''" "[]" "ascii ''Hello ''"]
      injectDbPlaceholders_tokens [of "ascii ''unknown''" Namae "[]" "[]" "[]"]
      n1 n2 h e
    by simp
qed

text \<open>
  The counterexample to claim C5 as stated: the name " namae " with a space on either
  side is no field of the record, and yet the token "{ namae }" is not left as it
  stands: the result is "Yamada Tarou".
\<close>

theorem injectDbPlaceholders_padded_counterexample:
  "\<not> isDbColumn [32, 0x540D, 0x524D, 32]
   \<and> injectDbPlaceholders [LBRACE, 32, 0x540D, 0x524D, 32, RBRACE] =
       [0x5C71, 0x7530, 0x20, 0x592A, 0x90CE]
   \<and> injectDbPlaceholders [LBRACE, 32, 0x540D, 0x524D, 32, RBRACE] \<noteq>
       [LBRACE, 32, 0x540D, 0x524D, 32, RBRACE]"
  by (simp add: injectDbPlaceholders_def replacer_def trim_def isWhiteSpace_def notBrace_def
      LBRACE_def RBRACE_def isDbColumn_def dbColumns_def sampleAt_def)

text \<open>
  Claim C10. The name of a token is trimmed before the lookup. With white space \<open>ws1\<close>
  before and \<open>ws2\<close> after a field name inside the braces, the trimmed name is the field
  name and the token is replaced by the text of the field's value. With white space
  around a name \<open>core\<close> that is no field name (and that neither starts nor ends with
  white space), the trimmed name is \<open>core\<close> and the token is put back as it was, white
  space and braces included. A name that is white space only is trimmed to the empty
  string, which is no field name, and the token is put back as it was.
\<close>

theorem injectDbPlaceholders_trims_name:
  "((\<forall>u \<in> set ws1. isWhiteSpace u) \<and> (\<forall>u \<in> set ws2. isWhiteSpace u) \<longrightarrow>
      trim (ws1 @ columnName c @ ws2) = columnName c
      \<and> injectDbPlaceholders (pre @ LBRACE # ws1 @ columnName c @ ws2 @ RBRACE # post) =
          injectDbPlaceholders pre @ String (DB_SAMPLE c) @ injectDbPlaceholders post)
   \<and> ((\<forall>u \<in> set ws1. isWhiteSpace u) \<and> (\<forall>u \<in> set ws2. isWhiteSpace u) \<and> core \<noteq> []
        \<and> \<not> isWhiteSpace (hd core) \<and> \<not> isWhiteSpace (last core)
        \<and> (\<forall>u \<in> set core. notBrace u) \<and> \<not> isDbColumn core \<longrightarrow>
      trim (ws1 @ core @ ws2) = core
      \<and> injectDbPlaceholders (pre @ LBRACE # ws1 @ core @ ws2 @ RBRACE # post) =
          injectDbPlaceholders pre @ LBRACE # ws1 @ core @ ws2 @ RBRACE
            # injectDbPlaceholders post)
   \<and> (ws1 \<noteq> [] \<and> (\<forall>u \<in> set ws1. isWhiteSpace u) \<longrightarrow>
      trim ws1 = []
      \<and> injectDbPlaceholders (pre @ LBRACE # ws1 @ RBRACE # post) =
          injectDbPlaceholders pre @ LBRACE # ws1 @ RBRACE # injectDbPlaceholders post)"
proof (intro conjI impI)
  assume w: "(\<forall>u \<in> set ws1. isWhiteSpace u) \<and> (\<forall>u \<in> set ws2. isWhiteSpace u)"
  show t: "trim (ws1 @ columnName c @ ws2) = columnName c"
    using w by (simp add: trim_padded columnName_shape)
  have ne: "ws1 @ columnName c @ ws2 \<noteq> []" by (simp add: columnName_shape)
  have nb: "\<forall>u \<in> set (ws1 @ columnName c @ ws2). notBrace u"
    using w columnName_shape(4) [of c] by (auto dest: isWhiteSpace_notBrace)
  have "replaceTokens replacer (pre @ LBRACE # (ws1 @ columnName c @ ws2) @ RBRACE # post) =
      replaceTokens replacer pre @ replacer (ws1 @ columnName c @ ws2)
        @ replaceTokens replacer post"
    using ne nb by (rule replaceTokens_token)
  then show "injectDbPlaceholders (pre @ LBRACE # ws1 @ columnName c @ ws2 @ RBRACE # post) =
          injectDbPlaceholders pre @ String (DB_SAMPLE c) @ injectDbPlaceholders post"
    using replacer_known [of c "ws1 @ columnName c @ ws2"] t
    by (simp add: injectDbPlaceholders_def)
next
  assume a: "(\<forall>u \<in> set ws1. isWhiteSpace u) \<and> (\<forall>u \<in> set ws2. isWhiteSpace u) \<and> core \<noteq> []
        \<and> \<not> isWhiteSpace (hd core) \<and> \<not> isWhiteSpace (last core)
        \<and> (\<forall>u \<in> set core. notBrace u) \<and> \<not> isDbColumn core"
  show t: "trim (ws1 @ core @ ws2) = core"
    using a by (simp add: trim_padded)
  have ne: "ws1 @ core @ ws2 \<noteq> []" using a by simp
  have nb: "\<forall>u \<in> set (ws1 @ core @ ws2). notBrace u"
    using a by (auto dest: isWhiteSpace_notBrace)
  have "replaceTokens replacer (pre @ LBRACE # (ws1 @ core @ ws2) @ RBRACE # post) =
      replaceTokens replacer pre @ replacer (ws1 @ core @ ws2) @ replaceTokens replacer post"
    using ne nb by (rule replaceTokens_token)
  then show "injectDbPlaceholders (pre @ LBRACE # ws1 @ core @ ws2 @ RBRACE # post) =
          injectDbPlaceholders pre @ LBRACE # ws1 @ core @ ws2 @ RBRACE
            # injectDbPlaceholders post"
    using replacer_unknown [of "ws1 @ core @ ws2"] t a
    by (simp add: injectDbPlaceholders_def)
next
  assume a: "ws1 \<noteq> [] \<and> (\<forall>u \<in> set ws1. isWhiteSpace u)"
  show t: "trim ws1 = []"
    using a by (simp add: trim_all_space)
  have nb: "\<forall>u \<in> set ws1. notBrace u"
    using a by (auto dest: isWhiteSpace_notBrace)
  have nc: "\<not> isDbColumn []"
    by (simp add: isDbColumn_def dbColumns_def)
  have "replaceTokens replacer (pre @ LBRACE # ws1 @ RBRACE # post) =
      replaceTokens replacer pre @ replacer ws1 @ replaceTokens replacer post"
    using a nb by (intro replaceTokens_token) auto
  then show "injectDbPlaceholders (pre @ LBRACE # ws1 @ RBRACE # post) =
          injectDbPlaceholders pre @ LBRACE # ws1 @ RBRACE # injectDbPlaceholders post"
    using replacer_unknown [of ws1] t nc
    by (simp add: injectDbPlaceholders_def)
qed

text \<open>
  "{ namae }" becomes "Yamada Tarou"; "{ unknown<TAB>}" stays, space and tab included;
  "{ }" stays.
\<close>

theorem injectDbPlaceholders_trims_name_witness:
  "injectDbPlaceholders (LBRACE # 32 # columnName Namae @ [32, RBRACE]) =
     [0x5C71, 0x7530, 0x20, 0x592A, 0x90CE]
   \<and> injectDbPlaceholders (LBRACE # 32 # ascii ''unknown'' @ [9, RBRACE]) =
       LBRACE # 32 # ascii ''unknown'' @ [9, RBRACE]
   \<and> injectDbPlaceholders [LBRACE, 32, RBRACE] = [LBRACE, 32, RBRACE]"
proof -
  have w: "(\<forall>u \<in> set [32]. isWhiteSpace u) \<and> (\<forall>u \<in> set [9]. isWhiteSpace u)
      \<and> [32::nat] \<noteq> []"
    by (simp add: isWhiteSpace_def)
  have k: "ascii ''unknown'' \<noteq> [] \<and> \<not> isWhiteSpace (hd (ascii ''unknown''))
      \<and> \<not> isWhiteSpace (last (ascii ''unknown''))
      \<and> (\<forall>u \<in> set (ascii ''unknown''). notBrace u) \<and> \<not> isDbColumn (ascii ''unknown'')"
    by (simp add: ascii_def isWhiteSpace_def notBrace_def LBRACE_def RBRACE_def
        isDbColumn_def dbColumns_def)
  have e: "injectDbPlaceholders [] = []" by (simp add: injectDbPlaceholders_def)
  show ?thesis
    using injectDbPlaceholders_trims_name [of "[32]" "[32]" Namae "[]" "[]" "ascii ''unknown''"]
      injectDbPlaceholders_trims_name [of "[32]" "[9]" Namae "[]" "[]" "ascii ''unknown''"]
      w k e
    by simp
qed

section \<open>Resizing a line\<close>

text \<open>
  Claim C3. \<^verbatim>\<open>applyLineResize\<close> updates the items whose id is the target's with one
  payload. On a line item that payload sets \<open>thickness\<close> to \<open>max d 1\<close>, where \<open>d\<close> is
  the new height for a horizontal target and the new width for a vertical one; it sets
  the dimension on the thickness axis to the same clamped value, and it takes the
  dimension on the length axis and the position from the inputs as they are. All other
  fields of the line stay. Resizing the horizontal example line to height 0 stores
  height 1 and thickness 1.
\<close>

theorem applyLineResize_clamps:
  "items (applyLineResize target nw nh (px, py) st) =
     map (\<lambda>item. if itemId item = id' target
                  then spread item (lineResizePayload target nw nh (px, py)) else item)
         (items st)
   \<and> spread (Line l) (lineResizePayload target nw nh (px, py)) =
       Line (l\<lparr>x := px, y := py,
               width := (if orientation target = horizontal then nw else max nw 1),
               height := (if orientation target = horizontal then max nh 1 else nh),
               thickness := max (if orientation target = horizontal then nh else nw) 1\<rparr>)"
  by (simp add: applyLineResize_def handleItemUpdate_def lineResizePayload_def spread_def Let_def)

theorem applyLineResize_clamps_witness:
  "items (applyLineResize exampleLine 200 0 (10, 20) exampleState) =
     [Line (exampleLine\<lparr>x := 10, y := 20, width := 200, height := 1, thickness := 1\<rparr>)]"
  using applyLineResize_clamps [of exampleLine 200 0 10 20 exampleState exampleLine]
  by (simp add: exampleState_items) (simp add: exampleLine_def)

section \<open>Updating and deleting items\<close>

text \<open>
  Claim C8. \<^verbatim>\<open>handleItemUpdate\<close> keeps the number and the order of the items: at every
  position the item is the old one with the payload merged in when its id is the given
  one, and the old one otherwise; the ids of the items, the selection and the paper
  size stay. Merging assigns the entries of the payload in their order: the empty
  payload changes nothing, and a further entry is assigned after the ones before it.
  An entry stores its value in the field of its key and leaves every other field of
  the item as it was: the position and the size on an item of any variant, and each
  further key on the items of the variants that have the field. When no item has the
  id, the whole state is unchanged. The function has no failing branch: it is defined
  on every id, payload and state.
\<close>

theorem handleItemUpdate_merges:
  "length (items (handleItemUpdate i p st)) = length (items st)
   \<and> (\<forall>k<length (items st).
         items (handleItemUpdate i p st) ! k =
           (if itemId (items st ! k) = i then spread (items st ! k) p else items st ! k))
   \<and> spread item [] = item
   \<and> spread item (p @ [f]) = assign f (spread item p)
   \<and> map itemId (items (handleItemUpdate i p st)) = map itemId (items st)
   \<and> selectedId (handleItemUpdate i p st) = selectedId st
   \<and> paperSize (handleItemUpdate i p st) = paperSize st
   \<and> (i \<notin> itemId ` set (items st) \<longrightarrow> handleItemUpdate i p st = st)
   \<and> assign (F_x v) (Text t) = Text (t\<lparr>x := v\<rparr>)
   \<and> assign (F_x v) (Data d) = Data (d\<lparr>x := v\<rparr>)
   \<and> assign (F_x v) (Rectangle r) = Rectangle (r\<lparr>x := v\<rparr>)
   \<and> assign (F_x v) (Line l) = Line (l\<lparr>x := v\<rparr>)
   \<and> assign (F_y v) (Text t) = Text (t\<lparr>y := v\<rparr>)
   \<and> assign (F_y v) (Data d) = Data (d\<lparr>y := v\<rparr>)
   \<and> assign (F_y v) (Rectangle r) = Rectangle (r\<lparr>y := v\<rparr>)
   \<and> assign (F_y v) (Line l) = Line (l\<lparr>y := v\<rparr>)
   \<and> assign (F_width v) (Text t) = Text (t\<lparr>width := v\<rparr>)
   \<and> assign (F_width v) (Data d) = Data (d\<lparr>width := v\<rparr>)
   \<and> assign (F_width v) (Rectangle r) = Rectangle (r\<lparr>width := v\<rparr>)
   \<and> assign (F_width v) (Line l) = Line (l\<lparr>width := v\<rparr>)
   \<and> assign (F_height v) (Text t) = Text (t\<lparr>height := v\<rparr>)
   \<and> assign (F_height v) (Data d) = Data (d\<lparr>height := v\<rparr>)
   \<and> assign (F_height v) (Rectangle r) = Rectangle (r\<lparr>height := v\<rparr>)
   \<and> assign (F_height v) (Line l) = Line (l\<lparr>height := v\<rparr>)
   \<and> assign (F_text s) (Text t) = Text (t\<lparr>text' := s\<rparr>)
   \<and> assign (F_fontSize v) (Text t) = Text (t\<lparr>TextItem.fontSize := v\<rparr>)
   \<and> assign (F_bold b) (Text t) = Text (t\<lparr>TextItem.bold := b\<rparr>)
   \<and> assign (F_align a) (Text t) = Text (t\<lparr>TextItem.align := a\<rparr>)
   \<and> assign (F_column c) (Data d) = Data (d\<lparr>DataItem.column := c\<rparr>)
   \<and> assign (F_fontSize v) (Data d) = Data (d\<lparr>DataItem.fontSize := v\<rparr>)
   \<and> assign (F_bold b) (Data d) = Data (d\<lparr>DataItem.bold := b\<rparr>)
   \<and> assign (F_align a) (Data d) = Data (d\<lparr>DataItem.align := a\<rparr>)
   \<and> assign (F_prefix s) (Data d) = Data (d\<lparr>prefix := s\<rparr>)
   \<and> assign (F_suffix s) (Data d) = Data (d\<lparr>suffix := s\<rparr>)
   \<and> assign (F_emptyFallback s) (Data d) = Data (d\<lparr>emptyFallback := s\<rparr>)
   \<and> assign (F_condition cond) (Data d) = Data (d\<lparr>condition := cond\<rparr>)
   \<and> assign (F_background s) (Rectangle r) = Rectangle (r\<lparr>background := s\<rparr>)
   \<and> assign (F_borderColor s) (Rectangle r) = Rectangle (r\<lparr>borderColor := s\<rparr>)
   \<and> assign (F_borderWidth v) (Rectangle r) = Rectangle (r\<lparr>borderWidth := v\<rparr>)
   \<and> assign (F_borderRadius v) (Rectangle r) = Rectangle (r\<lparr>borderRadius := v\<rparr>)
   \<and> assign (F_color s) (Line l) = Line (l\<lparr>color := s\<rparr>)
   \<and> assign (F_thickness v) (Line l) = Line (l\<lparr>thickness := v\<rparr>)
   \<and> assign (F_orientation o') (Line l) = Line (l\<lparr>orientation := o'\<rparr>)"
proof -
  have same: "handleItemUpdate i p st = st" if "i \<notin> itemId ` set (items st)"
  proof -
    have "map (\<lambda>item. if itemId item = i then spread item p else item) (items st) = items st"
      using that by (intro map_idI) auto
    then show ?thesis by (simp add: handleItemUpdate_def)
  qed
  have ids: "map itemId (items (handleItemUpdate i p st)) = map itemId (items st)"
    by (simp add: handleItemUpdate_def itemId_spread)
  have sp: "spread item [] = item \<and> spread item (p @ [f]) = assign f (spread item p)"
    by (simp add: spread_def)
  have upd: "length (items (handleItemUpdate i p st)) = length (items st)
   \<and> (\<forall>k<length (items st).
         items (handleItemUpdate i p st) ! k =
           (if itemId (items st ! k) = i then spread (items st ! k) p else items st ! k))
   \<and> selectedId (handleItemUpdate i p st) = selectedId st
   \<and> paperSize (handleItemUpdate i p st) = paperSize st"
    by (simp add: handleItemUpdate_def)
  show ?thesis using same ids sp upd by simp
qed

text \<open>
  In the example document the payload \<^verbatim>\<open>{ x: 5, thickness: 3 }\<close> for the id of the line
  changes these two fields of the line and nothing else; for an id that no item has
  the state stays; the entries \<^verbatim>\<open>{ text: 'unknown', x: 5 }\<close> on the text item store
  both values.
\<close>

theorem handleItemUpdate_merges_witness:
  "items (handleItemUpdate (ascii ''L1'') [F_x 5, F_thickness 3] exampleState2) =
     [Line (exampleLine\<lparr>x := 5, thickness := 3\<rparr>), newItem text_t (ascii ''T2'')]
   \<and> handleItemUpdate (ascii ''zz'') [F_x 5, F_thickness 3] exampleState2 = exampleState2
   \<and> spread (newItem text_t (ascii ''T2'')) [F_text (ascii ''unknown''), F_x 5] =
       Text \<lparr>id' = ascii ''T2'', x = 5, y = 40, width = 160, height = 60,
             text' = ascii ''unknown'', fontSize = 16, bold = False, align = left\<rparr>"
proof -
  have no: "ascii ''zz'' \<notin> itemId ` set (items exampleState2)"
    by (simp add: exampleState2_items example_ids) (simp add: ascii_def)
  have m: "handleItemUpdate (ascii ''zz'') [F_x 5, F_thickness 3] exampleState2 = exampleState2"
    using handleItemUpdate_merges
        [where i = "ascii ''zz''" and p = "[F_x 5, F_thickness 3]" and st = exampleState2]
      no
    by simp
  have k: "items exampleState2 ! 0 = Line exampleLine"
    "items exampleState2 ! Suc 0 = newItem text_t (ascii ''T2'')"
    "length (items exampleState2) = Suc (Suc 0)"
    by (simp_all add: exampleState2_items)
  have l: "spread (Line exampleLine) [F_x 5, F_thickness 3] =
      Line (exampleLine\<lparr>x := 5, thickness := 3\<rparr>)"
    using handleItemUpdate_merges
        [where item = "Line exampleLine" and p = "[]" and f = "F_x 5"
           and l = exampleLine and v = 5]
      handleItemUpdate_merges
        [where item = "Line exampleLine" and p = "[F_x 5]" and f = "F_thickness 3"
           and l = "exampleLine\<lparr>x := 5\<rparr>" and v = 3]
    by simp
  have u: "items (handleItemUpdate (ascii ''L1'') [F_x 5, F_thickness 3] exampleState2) =
     [Line (exampleLine\<lparr>x := 5, thickness := 3\<rparr>), newItem text_t (ascii ''T2'')]"
  proof (rule nth_equalityI)
    show "length (items (handleItemUpdate (ascii ''L1'') [F_x 5, F_thickness 3] exampleState2)) =
        length [Line (exampleLine\<lparr>x := 5, thickness := 3\<rparr>), newItem text_t (ascii ''T2'')]"
      using handleItemUpdate_merges
        [where i = "ascii ''L1''" and p = "[F_x 5, F_thickness 3]" and st = exampleState2]
      by (simp add: k)
  next
    fix n
    assume "n < length (items (handleItemUpdate (ascii ''L1'') [F_x 5, F_thickness 3]
      exampleState2))"
    then have n: "n < Suc (Suc 0)"
      using handleItemUpdate_merges
        [where i = "ascii ''L1''" and p = "[F_x 5, F_thickness 3]" and st = exampleState2]
      by (simp add: k)
    have d: "ascii ''T2'' \<noteq> ascii ''L1''" by (simp add: ascii_def)
    from n have "n = 0 \<or> n = Suc 0" by auto
    then show "items (handleItemUpdate (ascii ''L1'') [F_x 5, F_thickness 3] exampleState2) ! n =
        [Line (exampleLine\<lparr>x := 5, thickness := 3\<rparr>), newItem text_t (ascii ''T2'')] ! n"
      using handleItemUpdate_merges
        [where i = "ascii ''L1''" and p = "[F_x 5, F_thickness 3]" and st = exampleState2]
        l d
      by (auto simp: k example_ids)
  qed
  have t: "spread (newItem text_t (ascii ''T2'')) [F_text (ascii ''unknown''), F_x 5] =
       Text \<lparr>id' = ascii ''T2'', x = 5, y = 40, width = 160, height = 60,
             text' = ascii ''unknown'', fontSize = 16, bold = False, align = left\<rparr>"
    using handleItemUpdate_merges
        [where item = "newItem text_t (ascii ''T2'')" and p = "[]"
           and f = "F_text (ascii ''unknown'')" and s = "ascii ''unknown''"
           and t = "\<lparr>id' = ascii ''T2'', x = 40, y = 40, width = 160, height = 60,
                text' = [0x30C6, 0x30AD, 0x30B9, 0x30C8], fontSize = 16, bold = False,
                align = left\<rparr>"]
      handleItemUpdate_merges
        [where item = "newItem text_t (ascii ''T2'')" and p = "[F_text (ascii ''unknown'')]"
           and f = "F_x 5" and v = 5
           and t = "\<lparr>id' = ascii ''T2'', x = 40, y = 40, width = 160, height = 60,
                text' = ascii ''unknown'', fontSize = 16, bold = False, align = left\<rparr>"]
    by (simp add: newItem_def)
  show ?thesis using m u t by simp
qed

text \<open>
  Claim C7. \<^verbatim>\<open>handleDelete\<close> keeps, in their order, exactly the items whose id is not
  the given one; when the ids are distinct and the id occurs, that is one item less.
  The selection is cleared when it was the given id and kept otherwise. Selecting the
  deleted id afterwards leaves the items as they are and resolves to no selected item;
  in any state a selection that is the id of no item resolves to no selected item.
\<close>

theorem handleDelete_removes:
  "items (handleDelete i st) = filter (\<lambda>item. itemId item \<noteq> i) (items st)
   \<and> (\<forall>item. item \<in> set (items (handleDelete i st)) \<longleftrightarrow>
          item \<in> set (items st) \<and> itemId item \<noteq> i)
   \<and> (distinct (map itemId (items st)) \<and> i \<in> itemId ` set (items st) \<longrightarrow>
        Suc (length (items (handleDelete i st))) = length (items st))
   \<and> selectedId (handleDelete i st) = (if selectedId st = Some i then None else selectedId st)
   \<and> items (setSelectedId (Some i) (handleDelete i st)) = items (handleDelete i st)
   \<and> selectedItem (setSelectedId (Some i) (handleDelete i st)) = None
   \<and> ((\<forall>item \<in> set (items st). Some (itemId item) \<noteq> selectedId st) \<longrightarrow>
        selectedItem st = None)"
proof -
  have one: "Suc (length (filter (\<lambda>item. itemId item \<noteq> i) xs)) = length xs"
    if "distinct (map itemId xs)" "i \<in> itemId ` set xs" for xs
    using that
  proof (induction xs)
    case Nil
    then show ?case by simp
  next
    case (Cons a xs)
    show ?case
    proof (cases "itemId a = i")
      case True
      with Cons.prems have "i \<notin> itemId ` set xs" by auto
      then have "filter (\<lambda>item. itemId item \<noteq> i) xs = xs"
        by (intro filter_True) auto
      with True show ?thesis by simp
    next
      case False
      with Cons show ?thesis by auto
    qed
  qed
  have dangling: "selectedItem s = None"
    if "\<forall>item \<in> set (items s). Some (itemId item) \<noteq> selectedId s" for s
    using that by (simp add: selectedItem_def find_None_iff)
  have gone: "selectedItem (setSelectedId (Some i) (handleDelete i st)) = None"
    by (rule dangling) (simp add: setSelectedId_def handleDelete_def)
  show ?thesis
    using one [of "items st"] dangling [of st] gone
    by (simp add: handleDelete_def setSelectedId_def)
qed

theorem handleDelete_removes_witness:
  "items (handleDelete (ascii ''T2'') exampleState2) = [Line exampleLine]
   \<and> selectedId (handleDelete (ascii ''T2'') exampleState2) = None
   \<and> Suc (length (items (handleDelete (ascii ''T2'') exampleState2))) =
       length (items exampleState2)
   \<and> selectedItem
       (setSelectedId (Some (ascii ''T2'')) (handleDelete (ascii ''T2'') exampleState2)) = None
   \<and> selectedItem (setSelectedId (Some (ascii ''zz'')) exampleState2) = None"
proof -
  have d: "distinct (map itemId (items exampleState2))"
    by (simp add: exampleState2_items example_ids) (simp add: ascii_def)
  have m: "ascii ''T2'' \<in> itemId ` set (items exampleState2)"
    by (simp add: exampleState2_items example_ids)
  have f: "filter (\<lambda>item. itemId item \<noteq> ascii ''T2'') (items exampleState2) = [Line exampleLine]"
    by (simp add: exampleState2_items example_ids) (simp add: ascii_def)
  have z: "\<forall>item \<in> set (items (setSelectedId (Some (ascii ''zz'')) exampleState2)).
      Some (itemId item) \<noteq> selectedId (setSelectedId (Some (ascii ''zz'')) exampleState2)"
    by (simp add: setSelectedId_def exampleState2_items example_ids) (simp add: ascii_def)
  show ?thesis
    using handleDelete_removes [of "ascii ''T2''" exampleState2] d m f
      handleDelete_removes [of "ascii ''T2''" "setSelectedId (Some (ascii ''zz'')) exampleState2"] z
    by (simp add: exampleState2_selectedId) (simp add: exampleState2_items)
qed

section \<open>The condition and the preview text\<close>

text \<open>
  Claim C6. \<^verbatim>\<open>evaluateCondition\<close> returns nothing exactly when the condition is not
  enabled or its column is unset. Otherwise, with \<open>c\<close> the column and the source the
  text of the record's value under \<open>c\<close>, the result is \<open>trueText\<close> when the operator's
  test holds and \<open>falseText\<close> when it does not: equality for \<open>equals\<close>, inequality for
  \<open>notEquals\<close>, and for \<open>contains\<close> that the compared value occurs in the source as a
  contiguous part. The result is present also when the chosen text is empty.
\<close>

theorem evaluateCondition_result:
  "(evaluateCondition d = None \<longleftrightarrow>
      (\<not> enabled (condition d) \<or> ConditionSetting.column (condition d) = None))
   \<and> (enabled (condition d) \<and> ConditionSetting.column (condition d) = Some c \<longrightarrow>
        evaluateCondition d =
          Some (if (case operator (condition d) of
                      equals \<Rightarrow> String (DB_SAMPLE c) = value' (condition d)
                    | notEquals \<Rightarrow> String (DB_SAMPLE c) \<noteq> value' (condition d)
                    | contains \<Rightarrow>
                        (\<exists>pre post. String (DB_SAMPLE c) = pre @ value' (condition d) @ post))
                then trueText (condition d) else falseText (condition d)))"
  by (auto simp: evaluateCondition_def Let_def strIncludes_iff split: ConditionOperator.splits)

theorem evaluateCondition_result_witness:
  "evaluateCondition (exampleData None True (ascii ''Mr.'')) = Some (ascii ''Mr.'')
   \<and> evaluateCondition (exampleData None True []) = Some []
   \<and> evaluateCondition (exampleData None False (ascii ''Mr.'')) = None"
  using evaluateCondition_result [of "exampleData None True (ascii ''Mr.'')" Seibetsu]
    evaluateCondition_result [of "exampleData None True []" Seibetsu]
    evaluateCondition_result [of "exampleData None False (ascii ''Mr.'')" Seibetsu]
  by (simp add: exampleData_def)

text \<open>
  Claim C2. When \<^verbatim>\<open>evaluateCondition\<close> gives a text that is not empty,
  \<^verbatim>\<open>renderPreviewText\<close> returns it, whatever the bound column, the prefix and the suffix
  are. When it gives nothing or the empty text, the result is the fallback if no column
  is bound or the text of the bound value is empty, and otherwise the prefix, the text
  of the value and the suffix in a row. With no bound column and the condition not
  enabled the result is the fallback, "N/A" when that is the fallback.
\<close>

theorem renderPreviewText_order:
  "(\<forall>e. evaluateCondition item = Some e \<and> e \<noteq> [] \<longrightarrow> renderPreviewText item = e)
   \<and> (evaluateCondition item = None \<or> evaluateCondition item = Some [] \<longrightarrow>
        renderPreviewText item =
          (case DataItem.column item of
             None \<Rightarrow> emptyFallback item
           | Some c \<Rightarrow>
               if String (DB_SAMPLE c) = [] then emptyFallback item
               else prefix item @ String (DB_SAMPLE c) @ suffix item))
   \<and> (DataItem.column item = None \<and> \<not> enabled (condition item) \<longrightarrow>
        renderPreviewText item = emptyFallback item)"
  by (auto simp: renderPreviewText_def Let_def String_empty_iff evaluateCondition_def
           split: option.splits)

text \<open>
  The examples of the specification: the condition "sex equals dansei" with true text
  "Mr." gives "Mr." although a column, a prefix and a suffix are set; with the empty
  true text the same item gives "Age: 32!", and "N/A" when no column is bound; with no
  column and no enabled condition it gives "N/A".
\<close>

theorem renderPreviewText_order_witness:
  "renderPreviewText (exampleData (Some Nenrei) True (ascii ''Mr.'')) = ascii ''Mr.''
   \<and> renderPreviewText (exampleData (Some Nenrei) True []) = ascii ''Age: 32!''
   \<and> renderPreviewText (exampleData None True []) = ascii ''N/A''
   \<and> renderPreviewText (exampleData None False (ascii ''Mr.'')) = ascii ''N/A''"
proof -
  have ne: "ascii ''Mr.'' \<noteq> []" by (simp add: ascii_def)
  have f: "prefix (exampleData b e t) = ascii ''Age: ''" "suffix (exampleData b e t) = ascii ''!''"
    "emptyFallback (exampleData b e t) = ascii ''N/A''" "DataItem.column (exampleData b e t) = b"
    "enabled (condition (exampleData b e t)) = e" for b e t
    by (simp_all add: exampleData_def)
  have a: "ascii ''Age: '' @ [51, 50] @ ascii ''!'' = ascii ''Age: 32!''" by (simp add: ascii_def)
  have g: "digitsOf 32 = [51, 50]" by (simp add: digitsOf.simps)
  show ?thesis
    using renderPreviewText_order [of "exampleData (Some Nenrei) True (ascii ''Mr.'')"]
      renderPreviewText_order [of "exampleData (Some Nenrei) True []"]
      renderPreviewText_order [of "exampleData None True []"]
      renderPreviewText_order [of "exampleData None False (ascii ''Mr.'')"]
      ne a
    by (simp add: exampleData_eval f g)
qed

section \<open>Thickness and orientation of a line\<close>

lemma find_map_same:
  "(\<And>a. P (g a) = P a) \<Longrightarrow> find P (map g xs) = map_option g (find P xs)"
  by (induction xs) simp_all

lemma selectedItem_handleItemUpdate:
  assumes "selectedItem st = Some (Line sel)"
  shows "selectedItem (handleItemUpdate (id' sel) p st) = Some (spread (Line sel) p)"
proof -
  let ?g = "\<lambda>item. if itemId item = id' sel then spread item p else item"
  have "find (\<lambda>item. Some (itemId item) = selectedId st) (map ?g (items st)) =
      map_option ?g (find (\<lambda>item. Some (itemId item) = selectedId st) (items st))"
    by (rule find_map_same) (simp add: itemId_spread)
  with assms show ?thesis by (simp add: selectedItem_def handleItemUpdate_def)
qed

text \<open>
  What the two edits keep: a selected line that satisfies the invariant satisfies it
  after an edit, provided that a thickness that is entered is at least 1.
\<close>

lemma lineEdit_invariant:
  assumes "selectedItem st = Some (Line l)" and "lineInvariant l"
    and "\<forall>t. e = SetThickness t \<longrightarrow> 1 \<le> t"
  shows "\<exists>l'. selectedItem (lineEdit e st) = Some (Line l') \<and> lineInvariant l'"
proof (cases e)
  case (SetThickness t)
  with assms(3) have "1 \<le> t" by simp
  then have "lineInvariant (l\<lparr>thickness := t,
      height := (if orientation l = horizontal then t else height l),
      width := (if orientation l = vertical then t else width l)\<rparr>)"
    using assms(2) by (cases "orientation l") (simp_all add: lineInvariant_def)
  moreover have "selectedItem (lineEdit e st) = Some (Line (l\<lparr>thickness := t,
      height := (if orientation l = horizontal then t else height l),
      width := (if orientation l = vertical then t else width l)\<rparr>))"
    using assms(1) SetThickness selectedItem_handleItemUpdate [OF assms(1), of "thicknessPayload l t"]
    by (simp add: lineEdit_def setThickness_def) (simp add: thicknessPayload_def spread_def)
  ultimately show ?thesis by blast
next
  case (SetOrientation o')
  let ?len = "if orientation l = horizontal then width l else height l"
  let ?th = "if orientation l = horizontal then height l else width l"
  have "lineInvariant (l\<lparr>orientation := o',
      width := (if o' = horizontal then ?len else ?th),
      height := (if o' = vertical then ?len else ?th),
      thickness := max ?th 1\<rparr>)"
    using assms(2) by (cases "orientation l"; cases o') (simp_all add: lineInvariant_def)
  moreover have "selectedItem (lineEdit e st) = Some (Line (l\<lparr>orientation := o',
      width := (if o' = horizontal then ?len else ?th),
      height := (if o' = vertical then ?len else ?th),
      thickness := max ?th 1\<rparr>))"
    using assms(1) SetOrientation
      selectedItem_handleItemUpdate [OF assms(1), of "orientationPayload l o'"]
    by (simp add: lineEdit_def setOrientation_def)
       (simp add: orientationPayload_def spread_def Let_def)
  ultimately show ?thesis by blast
qed

lemma lineEdits_invariant:
  "selectedItem st = Some (Line l) \<and> lineInvariant l
     \<and> (\<forall>t. SetThickness t \<in> set es \<longrightarrow> 1 \<le> t) \<longrightarrow>
   (\<exists>l'. selectedItem (lineEdits es st) = Some (Line l') \<and> lineInvariant l')"
proof (induction es arbitrary: st l)
  case Nil
  show ?case by (simp add: lineEdits_def)
next
  case (Cons e es)
  show ?case
  proof
    assume a: "selectedItem st = Some (Line l) \<and> lineInvariant l
      \<and> (\<forall>t. SetThickness t \<in> set (e # es) \<longrightarrow> 1 \<le> t)"
    then obtain l1 where s: "selectedItem (lineEdit e st) = Some (Line l1)" "lineInvariant l1"
      using lineEdit_invariant [of st l e] by auto
    from a have "\<forall>t. SetThickness t \<in> set es \<longrightarrow> 1 \<le> t" by simp
    with s Cons.IH [of "lineEdit e st" l1]
    show "\<exists>l'. selectedItem (lineEdits (e # es) st) = Some (Line l') \<and> lineInvariant l'"
      by (simp add: lineEdits_def)
  qed
qed

text \<open>
  Claim C1, at the input on which the code departs from it. The thickness field of the
  property panel passes its number on as it is. Entering 0 (or clearing the field) for
  the example line, which satisfies the invariant, stores thickness 0 and height 0:
  the thickness is below 1.
\<close>

theorem setThickness_zero_below_minimum:
  "lineInvariant exampleLine
   \<and> lineEdits [SetThickness 0] exampleState =
       exampleState\<lparr>items := [Line (exampleLine\<lparr>thickness := 0, height := 0\<rparr>)]\<rparr>
   \<and> thickness (exampleLine\<lparr>thickness := 0, height := 0\<rparr>) < 1
   \<and> \<not> lineInvariant (exampleLine\<lparr>thickness := 0, height := 0\<rparr>)"
  by (simp add: lineEdits_def lineEdit_def exampleState_selected setThickness_def
      thicknessPayload_def handleItemUpdate_def exampleState_items example_ids spread_def
      lineInvariant_def)
     (simp add: exampleLine_def)

text \<open>
  Claim C4, at the input on which the code departs from it. The example line with its
  height set to 0 is switched to vertical: the length 160 moves to the height, the
  \<open>thickness\<close> field is clamped to 1, but the width, the dimension on the new thickness
  axis, takes the old height 0 unclamped. It is not equal to the thickness.
\<close>

theorem setOrientation_thin_line:
  "selectedItem thinLineState = Some (Line (exampleLine\<lparr>height := 0\<rparr>))
   \<and> items (lineEdit (SetOrientation vertical) thinLineState) =
       [Line (exampleLine\<lparr>orientation := vertical, width := 0, height := 160, thickness := 1\<rparr>)]
   \<and> width (exampleLine\<lparr>orientation := vertical, width := 0, height := 160, thickness := 1\<rparr>)
       \<noteq> thickness
            (exampleLine\<lparr>orientation := vertical, width := 0, height := 160, thickness := 1\<rparr>)"
proof -
  have s: "selectedItem thinLineState = Some (Line (exampleLine\<lparr>height := 0\<rparr>))"
    by (simp add: selectedItem_def thinLineState_items example_ids)
       (simp add: thinLineState_def handleItemUpdate_def exampleState_selectedId)
  show ?thesis
    by (simp add: s lineEdit_def setOrientation_def orientationPayload_def handleItemUpdate_def
        thinLineState_items example_ids spread_def Let_def)
       (simp add: exampleLine_def)
qed

section \<open>Changing the paper size\<close>

lemma lineEdit_paperSize: "paperSize (lineEdit e st) = paperSize st"
  by (simp add: lineEdit_def setThickness_def setOrientation_def handleItemUpdate_def
      split: option.splits CanvasItem.splits LineEdit.splits)

lemma handleEvent_paperSize: "paperSize (handleEvent e st) = paperSize st"
  by (cases e)
     (simp_all add: handleAddItem_def handleItemUpdate_def handleDelete_def setSelectedId_def
        applyLineResize_def lineEdit_paperSize resetDocument_def)

lemma handleEvents_paperSize:
  "paperSize (foldl (\<lambda>st e. handleEvent e st) st evs) = paperSize st"
  by (induction evs arbitrary: st) (simp_all add: handleEvent_paperSize)

text \<open>While no paper size is chosen the document is empty and nothing is selected.\<close>

lemma step_unsized_empty:
  assumes "step s rt = Some rt'"
    and "paperSize (state rt) = None \<longrightarrow> items (state rt) = [] \<and> selectedId (state rt) = None"
  shows "paperSize (state rt') = None \<longrightarrow> items (state rt') = [] \<and> selectedId (state rt') = None"
proof (cases s)
  case (User e)
  with assms(1) have w: "\<not> (workspaceEvent e \<and> paperSize (state rt) = None)"
    and r: "rt' = userEvents [e] rt" by (auto split: if_splits)
  show ?thesis
  proof
    assume "paperSize (state rt') = None"
    then have p: "paperSize (state rt) = None"
      by (simp add: r userEvents_def handleEvent_paperSize)
    with w have nw: "\<not> workspaceEvent e" by simp
    from p assms(2) have "items (state rt) = [] \<and> selectedId (state rt) = None" by simp
    with nw show "items (state rt') = [] \<and> selectedId (state rt') = None"
      by (cases e) (simp_all add: r userEvents_def resetDocument_def)
  qed
next
  case (HeaderSelect k)
  with assms(1) show ?thesis by (auto simp: paperSelectOnChange_def)
next
  case (OverlaySelect k)
  with assms(1) show ?thesis by (auto simp: overlaySelectOnChange_def split: if_splits)
next
  case TimerFires
  with assms(1) have r: "rt' = timerFires rt" by simp
  show ?thesis
  proof (cases "timers rt")
    case Nil
    with assms(2) show ?thesis by (simp add: r timerFires_def)
  next
    case (Cons t ts)
    then show ?thesis by (cases t) (simp add: r timerFires_def resetDocument_def)
  qed
qed

lemma run_unsized_empty:
  "run ss rt = Some rt' \<Longrightarrow>
   (paperSize (state rt) = None \<longrightarrow> items (state rt) = [] \<and> selectedId (state rt) = None) \<Longrightarrow>
   paperSize (state rt') = None \<longrightarrow> items (state rt') = [] \<and> selectedId (state rt') = None"
proof (induction ss arbitrary: rt)
  case Nil
  then show ?case by simp
next
  case (Cons s ss)
  from Cons.prems(1) obtain rt1 where s1: "step s rt = Some rt1" and r1: "run ss rt1 = Some rt'"
    by (auto split: option.splits)
  show ?case
    by (rule Cons.IH [OF r1 step_unsized_empty [OF s1 Cons.prems(2)]])
qed

lemma reachable_unsized_empty:
  assumes "run ss initialRuntime = Some rt" and "paperSize (state rt) = None"
  shows "items (state rt) = [] \<and> selectedId (state rt) = None"
proof -
  have "paperSize (state initialRuntime) = None \<longrightarrow>
      items (state initialRuntime) = [] \<and> selectedId (state initialRuntime) = None"
    by (simp add: initialRuntime_def initialState_def)
  from run_unsized_empty [OF assms(1) this] assms(2) show ?thesis by simp
qed

text \<open>
  Claim C9. When the select of the header changes the paper size, the handler leaves a
  state with the new size, the items and the selection as they were, and the reset
  queued behind the timers that were pending: the reset has not happened when the size
  is in the state. Whatever events of the user come between, once the timer fires the
  item list is empty, nothing is selected and the paper size is still the new one; when
  no timer was pending before, none is pending after. The overlay's select, the only
  other place that sets the paper size, is offered only while no size is chosen; it
  queues no reset, and in every state that a run from the initial state reaches the
  document is empty then, so that after this change too the item list is empty and
  nothing is selected.
\<close>

theorem paperSelectOnChange_then_reset:
  "paperSize (state (paperSelectOnChange next' rt)) = Some next'
   \<and> items (state (paperSelectOnChange next' rt)) = items (state rt)
   \<and> selectedId (state (paperSelectOnChange next' rt)) = selectedId (state rt)
   \<and> timers (paperSelectOnChange next' rt) = timers rt @ [ResetTask]
   \<and> paperSize (state (timerFires (userEvents evs (paperSelectOnChange next' rt)))) = Some next'
   \<and> items (state (timerFires (userEvents evs (paperSelectOnChange next' rt)))) = []
   \<and> selectedId (state (timerFires (userEvents evs (paperSelectOnChange next' rt)))) = None
   \<and> (timers rt = [] \<longrightarrow>
        timers (timerFires (userEvents evs (paperSelectOnChange next' rt))) = [])
   \<and> (run ss initialRuntime = Some rt \<and> paperSize (state rt) = None \<longrightarrow>
        paperSize (state (overlaySelectOnChange next' rt)) = Some next'
        \<and> items (state (overlaySelectOnChange next' rt)) = []
        \<and> selectedId (state (overlaySelectOnChange next' rt)) = None)"
proof -
  let ?rt1 = "paperSelectOnChange next' rt"
  let ?rt2 = "userEvents evs ?rt1"
  have q: "timers ?rt2 = timers rt @ [ResetTask]"
    by (simp add: userEvents_def paperSelectOnChange_def)
  have p: "paperSize (state ?rt2) = Some next'"
    by (simp add: userEvents_def handleEvents_paperSize) (simp add: paperSelectOnChange_def)
  obtain t ts where c: "timers ?rt2 = t # ts"
    using q by (cases "timers rt") auto
  have f: "state (timerFires ?rt2) = resetDocument (state ?rt2)"
    using c by (cases t) (simp add: timerFires_def)
  have e: "timers rt = [] \<Longrightarrow> timers (timerFires ?rt2) = []"
    using q by (simp add: timerFires_def)
  have o: "paperSize (state (overlaySelectOnChange next' rt)) = Some next'
        \<and> items (state (overlaySelectOnChange next' rt)) = []
        \<and> selectedId (state (overlaySelectOnChange next' rt)) = None"
    if "run ss initialRuntime = Some rt" "paperSize (state rt) = None"
    using reachable_unsized_empty [OF that] by (simp add: overlaySelectOnChange_def)
  have h: "paperSize (state ?rt1) = Some next' \<and> items (state ?rt1) = items (state rt)
      \<and> selectedId (state ?rt1) = selectedId (state rt)
      \<and> timers ?rt1 = timers rt @ [ResetTask]"
    by (simp add: paperSelectOnChange_def)
  have r: "paperSize (state (timerFires ?rt2)) = Some next'
      \<and> items (state (timerFires ?rt2)) = [] \<and> selectedId (state (timerFires ?rt2)) = None"
    using p by (simp add: f resetDocument_def)
  show ?thesis using h r e o by blast
qed

text \<open>
  The example document with its two items, changed to Letter: the items are still
  there when the size is Letter; after a deletion by the user and the timer they are
  gone and no timer is pending. From the initial state the overlay's select leaves an
  empty document of the new size.
\<close>

theorem paperSelectOnChange_then_reset_witness:
  "items (state (paperSelectOnChange Letter \<lparr>state = exampleState2, timers = []\<rparr>)) =
     [Line exampleLine, newItem text_t (ascii ''T2'')]
   \<and> paperSize (state (paperSelectOnChange Letter \<lparr>state = exampleState2, timers = []\<rparr>)) =
       Some Letter
   \<and> items (state (timerFires (userEvents [Delete (ascii ''T2'')]
        (paperSelectOnChange Letter \<lparr>state = exampleState2, timers = []\<rparr>)))) = []
   \<and> timers (timerFires (userEvents [Delete (ascii ''T2'')]
        (paperSelectOnChange Letter \<lparr>state = exampleState2, timers = []\<rparr>))) = []
   \<and> run [User Reset] initialRuntime = Some initialRuntime
   \<and> items (state (overlaySelectOnChange A4 initialRuntime)) = []
   \<and> paperSize (state (overlaySelectOnChange A4 initialRuntime)) = Some A4"
proof -
  have i: "run [User Reset] initialRuntime = Some initialRuntime"
    by (simp add: initialRuntime_def initialState_def userEvents_def resetDocument_def)
  have n: "paperSize (state initialRuntime) = None"
    by (simp add: initialRuntime_def initialState_def)
  show ?thesis
    using paperSelectOnChange_then_reset
        [of Letter "\<lparr>state = exampleState2, timers = []\<rparr>" "[Delete (ascii ''T2'')]"]
      paperSelectOnChange_then_reset [of A4 initialRuntime "[]" "[User Reset]"] i n
    by (simp add: exampleState2_items)
qed

end
